theory Spec2Isabelle
  imports Complex_Main "HOL-Library.Log_Nat"
begin

section \<open>JavaScript Number values\<close>

text \<open>
  Every amount and balance of \<^verbatim>\<open>script.js\<close> is a JavaScript Number: an IEEE 754
  binary64 value. A finite Number is the real it denotes; \<open>NaN\<close> and the two infinities
  are values of their own. The two zeros are identified: the program never divides by a
  balance and never inspects the sign of a zero. Arithmetic rounds the exact result to
  the nearest binary64 value, ties to the even significand (\<open>fl\<close>).
\<close>

datatype jsnum = NaN | NegInf | Fin real | PosInf

definition pow2 :: "int \<Rightarrow> real" where
  "pow2 e = (if 0 \<le> e then 2 ^ nat e else 1 / 2 ^ nat (- e))"

text \<open>\<open>ilog2 q\<close> is the binary exponent of a positive \<open>q\<close>: \<open>2^(ilog2 q) \<le> q < 2^(ilog2 q + 1)\<close>.\<close>

definition ilog2 :: "real \<Rightarrow> int" where
  "ilog2 q = (if 1 \<le> q then bitlen \<lfloor>q\<rfloor> - 1 else - bitlen (\<lceil>1 / q\<rceil> - 1))"

definition round_half_even :: "real \<Rightarrow> int" where
  "round_half_even x =
     (let f = \<lfloor>x\<rfloor>; r = x - of_int f
      in if r < 1 / 2 then f else if 1 / 2 < r then f + 1
         else if even f then f else f + 1)"

text \<open>
  Rounding of a positive real: the spacing of binary64 values around \<open>q\<close> is
  \<open>2^(ilog2 q - 52)\<close> (53 significant bits), and never below \<open>2^-1074\<close> (subnormal
  range); a result that reaches \<open>2^1024\<close> overflows to infinity.
\<close>

definition fl_pos :: "real \<Rightarrow> jsnum" where
  "fl_pos q =
     (let e = max (- 1074) (ilog2 q - 52);
          r = of_int (round_half_even (q / pow2 e)) * pow2 e
      in if pow2 1024 \<le> r then PosInf else Fin r)"

fun js_neg :: "jsnum \<Rightarrow> jsnum" where
  "js_neg NaN = NaN"
| "js_neg NegInf = PosInf"
| "js_neg (Fin q) = Fin (- q)"
| "js_neg PosInf = NegInf"

definition fl :: "real \<Rightarrow> jsnum" where
  "fl q = (if q = 0 then Fin 0 else if 0 < q then fl_pos q else js_neg (fl_pos (- q)))"

text \<open>
  A real is a binary64 value when rounding leaves it alone. Only such reals occur in
  Numbers: \<open>is_number\<close> says so of a \<open>jsnum\<close>.
\<close>

definition is_double :: "real \<Rightarrow> bool" where
  "is_double q \<longleftrightarrow> fl q = Fin q"

fun is_number :: "jsnum \<Rightarrow> bool" where
  "is_number (Fin q) = is_double q"
| "is_number _ = True"

text \<open>The operators \<^verbatim>\<open>+\<close>, \<^verbatim>\<open>-\<close>, \<^verbatim>\<open>*\<close>, \<^verbatim>\<open><=\<close>, \<^verbatim>\<open>>\<close> and \<^verbatim>\<open><\<close> on Numbers.\<close>

fun js_add :: "jsnum \<Rightarrow> jsnum \<Rightarrow> jsnum" where
  "js_add (Fin a) (Fin b) = fl (a + b)"
| "js_add NaN _ = NaN"
| "js_add _ NaN = NaN"
| "js_add PosInf NegInf = NaN"
| "js_add NegInf PosInf = NaN"
| "js_add PosInf _ = PosInf"
| "js_add _ PosInf = PosInf"
| "js_add NegInf _ = NegInf"
| "js_add _ NegInf = NegInf"

fun js_sub :: "jsnum \<Rightarrow> jsnum \<Rightarrow> jsnum" where
  "js_sub (Fin a) (Fin b) = fl (a - b)"
| "js_sub NaN _ = NaN"
| "js_sub _ NaN = NaN"
| "js_sub PosInf PosInf = NaN"
| "js_sub NegInf NegInf = NaN"
| "js_sub PosInf _ = PosInf"
| "js_sub _ NegInf = PosInf"
| "js_sub NegInf _ = NegInf"
| "js_sub _ PosInf = NegInf"

fun js_mul :: "jsnum \<Rightarrow> jsnum \<Rightarrow> jsnum" where
  "js_mul (Fin a) (Fin b) = fl (a * b)"
| "js_mul NaN _ = NaN"
| "js_mul _ NaN = NaN"
| "js_mul (Fin a) PosInf = (if a = 0 then NaN else if 0 < a then PosInf else NegInf)"
| "js_mul (Fin a) NegInf = (if a = 0 then NaN else if 0 < a then NegInf else PosInf)"
| "js_mul PosInf (Fin b) = (if b = 0 then NaN else if 0 < b then PosInf else NegInf)"
| "js_mul NegInf (Fin b) = (if b = 0 then NaN else if 0 < b then NegInf else PosInf)"
| "js_mul PosInf PosInf = PosInf"
| "js_mul NegInf NegInf = PosInf"
| "js_mul PosInf NegInf = NegInf"
| "js_mul NegInf PosInf = NegInf"

fun js_lt :: "jsnum \<Rightarrow> jsnum \<Rightarrow> bool" where
  "js_lt (Fin a) (Fin b) = (a < b)"
| "js_lt NaN _ = False"
| "js_lt _ NaN = False"
| "js_lt _ NegInf = False"
| "js_lt NegInf _ = True"
| "js_lt PosInf _ = False"
| "js_lt _ PosInf = True"

fun js_le :: "jsnum \<Rightarrow> jsnum \<Rightarrow> bool" where
  "js_le (Fin a) (Fin b) = (a \<le> b)"
| "js_le NaN _ = False"
| "js_le _ NaN = False"
| "js_le NegInf _ = True"
| "js_le _ PosInf = True"
| "js_le _ NegInf = False"
| "js_le PosInf _ = False"

definition js_gt :: "jsnum \<Rightarrow> jsnum \<Rightarrow> bool" where
  "js_gt x y = js_lt y x"

text \<open>\<^verbatim>\<open>!x\<close> on a Number: true for zero and for \<open>NaN\<close>.\<close>

definition js_not :: "jsnum \<Rightarrow> bool" where
  "js_not x \<longleftrightarrow> x = NaN \<or> x = Fin 0"

section \<open>Accounts, observers and the page state\<close>

text \<open>
  \<^verbatim>\<open>throw new Error(msg)\<close> is \<open>Error msg\<close>; \<open>TypeError\<close> is what the engine throws
  when a method or property of \<^verbatim>\<open>undefined\<close> is used (an account reference that
  \<^verbatim>\<open>accounts.get\<close> did not find).
\<close>

datatype error = Error string | TypeError

record observer =
  obs_name :: string
  obs_email :: string

text \<open>
  The texts of the notifications, kept as data: the template strings of the source only
  format these values (\<^verbatim>\<open>toFixed(2)\<close> and concatenation).
\<close>

datatype message =
    Deposited jsnum jsnum
  | Withdrawn jsnum jsnum
  | TransferredTo jsnum string nat
  | ReceivedFrom jsnum string nat
  | InterestApplied jsnum jsnum
  | UndoDeposit jsnum string
  | UndoWithdraw jsnum string
  | UndoTransfer jsnum string string
  | ErrorMessage error
  | CommandUndone string
  | AccountCreated string string nat jsnum
  | SubscribedTo string string
  | InterestOn string
  | DemoCreated

datatype title = ObserverTitle string string string | Title string

record account =
  acc_id :: nat
  owner :: string
  acc_type :: string
  balance :: jsnum
  observers :: "observer list"
  subscribers :: "string list"

text \<open>
  A command holds references to Account objects. A reference is the key of the object in
  the store \<open>accounts\<close> (the Map \<^verbatim>\<open>accounts\<close>, which is filled by
  \<^verbatim>\<open>accounts.set(acct.id, acct)\<close> only); \<^verbatim>\<open>undefined\<close> is a key outside the store.
\<close>

datatype command =
    DepositCommand nat jsnum
  | WithdrawCommand nat jsnum
  | TransferCommand nat nat jsnum

text \<open>
  The state of the page: the Map of accounts, the stack of executed commands (the last
  element is the top), the id counter, and the two lists of the page that the functions
  below write, newest entry first: the notifications feed and the command history.
  Toasts, the two counters and the re-rendering of lists only display this state.
\<close>

record bank =
  accounts :: "nat \<rightharpoonup> account"
  commandStack :: "command list"
  nextAcctId :: nat
  feed :: "(title \<times> message) list"
  command_history :: "string list"

text \<open>
  A call either returns (\<open>Inr\<close> the state after it) or throws (\<open>Inl\<close> the exception
  and the state at the moment of the throw: nothing is rolled back).
\<close>

type_synonym result = "(error \<times> bank) + bank"

definition thrown :: "result \<Rightarrow> error option" where
  "thrown r = (case r of Inl (e, s) \<Rightarrow> Some e | Inr s \<Rightarrow> None)"

definition state_after :: "result \<Rightarrow> bank" where
  "state_after r = (case r of Inl (e, s) \<Rightarrow> s | Inr s \<Rightarrow> s)"

definition addNotification :: "title \<Rightarrow> message \<Rightarrow> bank \<Rightarrow> bank" where
  "addNotification t m s = s\<lparr>feed := (t, m) # feed s\<rparr>"

text \<open>\<^verbatim>\<open>AccountSubject.notify\<close>: every observer of the account posts the message.\<close>

definition notify :: "account \<Rightarrow> message \<Rightarrow> bank \<Rightarrow> bank" where
  "notify a m s =
     fold (\<lambda>obs. addNotification (ObserverTitle (obs_name obs) (obs_email obs) (owner a)) m)
       (observers a) s"

definition attach :: "nat \<Rightarrow> observer \<Rightarrow> bank \<Rightarrow> bank" where
  "attach this obs s =
     (case accounts s this of None \<Rightarrow> s
      | Some a \<Rightarrow> s\<lparr>accounts := (accounts s)(this \<mapsto> a\<lparr>observers := observers a @ [obs]\<rparr>)\<rparr>)"

definition detach :: "nat \<Rightarrow> string \<Rightarrow> bank \<Rightarrow> bank" where
  "detach this observerEmail s =
     (case accounts s this of None \<Rightarrow> s
      | Some a \<Rightarrow> s\<lparr>accounts := (accounts s)(this \<mapsto>
          a\<lparr>observers := filter (\<lambda>obs. obs_email obs \<noteq> observerEmail) (observers a)\<rparr>)\<rparr>)"

subsection \<open>Interest strategies\<close>

datatype strategy = InterestStrategy | SavingsInterest | FixedInterest | CurrentInterest

text \<open>The literals \<^verbatim>\<open>0.04\<close>, \<^verbatim>\<open>0.07\<close> and \<^verbatim>\<open>0.005\<close> denote the nearest binary64 values.\<close>

fun calculate :: "strategy \<Rightarrow> jsnum \<Rightarrow> jsnum" where
  "calculate InterestStrategy bal = Fin 0"
| "calculate SavingsInterest bal = js_mul bal (fl (4 / 100))"
| "calculate FixedInterest bal = js_mul bal (fl (7 / 100))"
| "calculate CurrentInterest bal = js_mul bal (fl (5 / 1000))"

subsection \<open>The methods of Account\<close>

definition deposit :: "nat \<Rightarrow> jsnum \<Rightarrow> bank \<Rightarrow> result" where
  "deposit this amount s =
     (case accounts s this of
        None \<Rightarrow> Inl (TypeError, s)
      | Some a \<Rightarrow>
          if js_le amount (Fin 0) then Inl (Error ''Amount must be > 0'', s)
          else
            let a' = a\<lparr>balance := js_add (balance a) amount\<rparr>
            in Inr (notify a' (Deposited amount (balance a'))
                     (s\<lparr>accounts := (accounts s)(this \<mapsto> a')\<rparr>)))"

definition withdraw :: "nat \<Rightarrow> jsnum \<Rightarrow> bank \<Rightarrow> result" where
  "withdraw this amount s =
     (case accounts s this of
        None \<Rightarrow> Inl (TypeError, s)
      | Some a \<Rightarrow>
          if js_le amount (Fin 0) then Inl (Error ''Amount must be > 0'', s)
          else if js_gt amount (balance a) then Inl (Error ''Insufficient funds'', s)
          else
            let a' = a\<lparr>balance := js_sub (balance a) amount\<rparr>
            in Inr (notify a' (Withdrawn amount (balance a'))
                     (s\<lparr>accounts := (accounts s)(this \<mapsto> a')\<rparr>)))"

definition transferTo :: "nat \<Rightarrow> nat \<Rightarrow> jsnum \<Rightarrow> bank \<Rightarrow> result" where
  "transferTo this targetAccount amount s =
     (case accounts s this of
        None \<Rightarrow> Inl (TypeError, s)
      | Some a \<Rightarrow>
         (case accounts s targetAccount of
            None \<Rightarrow> Inl (TypeError, s)
          | Some b \<Rightarrow>
              if acc_id a = acc_id b then Inl (Error ''Cannot transfer to same account'', s)
              else
                (case withdraw this amount s of
                   Inl ex \<Rightarrow> Inl ex
                 | Inr s1 \<Rightarrow>
                    (case deposit targetAccount amount s1 of
                       Inl ex \<Rightarrow> Inl ex
                     | Inr s2 \<Rightarrow>
                         Inr (notify b (ReceivedFrom amount (owner a) (acc_id a))
                               (notify a (TransferredTo amount (owner b) (acc_id b)) s2))))))"

definition applyInterest :: "nat \<Rightarrow> strategy \<Rightarrow> bank \<Rightarrow> result" where
  "applyInterest this strat s =
     (case accounts s this of
        None \<Rightarrow> Inl (TypeError, s)
      | Some a \<Rightarrow>
          let interest = calculate strat (balance a);
              a' = a\<lparr>balance := js_add (balance a) interest\<rparr>
          in Inr (notify a' (InterestApplied interest (balance a'))
                   (s\<lparr>accounts := (accounts s)(this \<mapsto> a')\<rparr>)))"

subsection \<open>Commands\<close>

fun execute :: "command \<Rightarrow> bank \<Rightarrow> result" where
  "execute (DepositCommand acct amount) s = deposit acct amount s"
| "execute (WithdrawCommand acct amount) s = withdraw acct amount s"
| "execute (TransferCommand fromAcc toAcc amount) s = transferTo fromAcc toAcc amount s"

text \<open>\<open>owner_of\<close> reads \<^verbatim>\<open>account.owner\<close> for the undo notifications.\<close>

definition owner_of :: "bank \<Rightarrow> nat \<Rightarrow> string" where
  "owner_of s r = (case accounts s r of None \<Rightarrow> [] | Some a \<Rightarrow> owner a)"

fun undo :: "command \<Rightarrow> bank \<Rightarrow> result" where
  "undo (DepositCommand acct amount) s =
     (case withdraw acct amount s of
        Inl ex \<Rightarrow> Inl ex
      | Inr s1 \<Rightarrow> Inr (addNotification (Title ''System'') (UndoDeposit amount (owner_of s1 acct)) s1))"
| "undo (WithdrawCommand acct amount) s =
     (case deposit acct amount s of
        Inl ex \<Rightarrow> Inl ex
      | Inr s1 \<Rightarrow> Inr (addNotification (Title ''System'') (UndoWithdraw amount (owner_of s1 acct)) s1))"
| "undo (TransferCommand fromAcc toAcc amount) s =
     (case withdraw toAcc amount s of
        Inl ex \<Rightarrow> Inl ex
      | Inr s1 \<Rightarrow>
         (case deposit fromAcc amount s1 of
            Inl ex \<Rightarrow> Inl ex
          | Inr s2 \<Rightarrow>
              Inr (addNotification (Title ''System'')
                    (UndoTransfer amount (owner_of s2 fromAcc) (owner_of s2 toAcc)) s2)))"

fun constructor_name :: "command \<Rightarrow> string" where
  "constructor_name (DepositCommand _ _) = ''DepositCommand''"
| "constructor_name (WithdrawCommand _ _) = ''WithdrawCommand''"
| "constructor_name (TransferCommand _ _ _) = ''TransferCommand''"

text \<open>\<^verbatim>\<open>cmd.constructor.name.replace('Command','')\<close>.\<close>

fun label :: "command \<Rightarrow> string" where
  "label (DepositCommand _ _) = ''Deposit''"
| "label (WithdrawCommand _ _) = ''Withdraw''"
| "label (TransferCommand _ _ _) = ''Transfer''"

definition logCommand :: "command \<Rightarrow> bank \<Rightarrow> bank" where
  "logCommand cmd s = s\<lparr>command_history := label cmd # command_history s\<rparr>"

definition executeCommand :: "command \<Rightarrow> bank \<Rightarrow> bank" where
  "executeCommand cmd s =
     (case execute cmd s of
        Inr s1 \<Rightarrow> logCommand cmd (s1\<lparr>commandStack := commandStack s1 @ [cmd]\<rparr>)
      | Inl (err, s1) \<Rightarrow> addNotification (Title ''Error'') (ErrorMessage err) s1)"

section \<open>The handlers of the page\<close>

text \<open>
  The string functions of the engine (\<^verbatim>\<open>trim\<close>, \<^verbatim>\<open>toLowerCase\<close>, \<^verbatim>\<open>replace\<close>) work on Unicode
  text and are not part of the program: the handlers below take their results as
  arguments, so that what is proved holds whatever these functions return.
\<close>

definition new_Account :: "nat \<Rightarrow> string \<Rightarrow> string \<Rightarrow> jsnum \<Rightarrow> account" where
  "new_Account i name type bal =
     \<lparr>acc_id = i, owner = name, acc_type = type, balance = bal, observers = [], subscribers = []\<rparr>"

definition init :: bank where
  "init = \<lparr>accounts = Map.empty, commandStack = [], nextAcctId = 1001, feed = [],
           command_history = []\<rparr>"

text \<open>
  \<^verbatim>\<open>create-acct\<close>: \<open>name\<close> is \<^verbatim>\<open>$('acct-name').value.trim()\<close>, \<open>owner_email\<close> is the text
  that \<^verbatim>\<open>`${name.toLowerCase().replace(/\s+/g,'')}@demo.bank`\<close> evaluates to, and \<open>parsed\<close> is
  what \<^verbatim>\<open>parseFloat\<close> returns for the balance input (\<open>NaN\<close> when it is not a number).
\<close>

definition create_acct :: "string \<Rightarrow> string \<Rightarrow> string \<Rightarrow> jsnum \<Rightarrow> bank \<Rightarrow> bank" where
  "create_acct name owner_email type parsed s =
     (let bal = (if js_not parsed then Fin 0 else parsed)
      in if name = [] then s
         else
           let acct = new_Account (nextAcctId s) name type bal;
               s1 = s\<lparr>nextAcctId := nextAcctId s + 1,
                       accounts := (accounts s)(acc_id acct \<mapsto> acct)\<rparr>;
               s2 = addNotification (Title ''Account Created'')
                      (AccountCreated (owner acct) (acc_type acct) (acc_id acct) (balance acct)) s1
           in attach (acc_id acct) \<lparr>obs_name = name, obs_email = owner_email\<rparr> s2)"

text \<open>
  The selects give \<^verbatim>\<open>parseInt(value)\<close>: \<open>None\<close> is \<open>NaN\<close> (the entry "none"), and
  \<^verbatim>\<open>!id\<close> holds for \<open>NaN\<close> and for 0. The amount is \<^verbatim>\<open>Number(value)\<close>.
\<close>

definition no_id :: "nat option \<Rightarrow> bool" where
  "no_id i \<longleftrightarrow> i = None \<or> i = Some 0"

definition cmd_deposit :: "nat option \<Rightarrow> jsnum \<Rightarrow> bank \<Rightarrow> bank" where
  "cmd_deposit i amount s =
     (case i of
        None \<Rightarrow> s
      | Some acct \<Rightarrow>
          if no_id i \<or> js_not amount then s else executeCommand (DepositCommand acct amount) s)"

definition cmd_withdraw :: "nat option \<Rightarrow> jsnum \<Rightarrow> bank \<Rightarrow> bank" where
  "cmd_withdraw i amount s =
     (case i of
        None \<Rightarrow> s
      | Some acct \<Rightarrow>
          if no_id i \<or> js_not amount then s else executeCommand (WithdrawCommand acct amount) s)"

definition cmd_transfer :: "nat option \<Rightarrow> nat option \<Rightarrow> jsnum \<Rightarrow> bank \<Rightarrow> bank" where
  "cmd_transfer fromId toId amount s =
     (case (fromId, toId) of
        (Some from, Some to) \<Rightarrow>
          if no_id fromId \<or> no_id toId \<or> js_not amount then s
          else executeCommand (TransferCommand from to amount) s
      | _ \<Rightarrow> s)"

text \<open>
  \<^verbatim>\<open>cmd-undo\<close>: the command is popped before its \<^verbatim>\<open>undo()\<close> runs, and stays popped
  when \<^verbatim>\<open>undo()\<close> throws.
\<close>

definition cmd_undo :: "bank \<Rightarrow> bank" where
  "cmd_undo s =
     (if commandStack s = [] then s
      else
        let last_cmd = last (commandStack s);
            s0 = s\<lparr>commandStack := butlast (commandStack s)\<rparr>
        in case undo last_cmd s0 of
             Inr s1 \<Rightarrow> addNotification (Title ''Undo'') (CommandUndone (constructor_name last_cmd)) s1
           | Inl (e, s1) \<Rightarrow> addNotification (Title ''Undo Error'') (ErrorMessage e) s1)"

definition select_strategy :: "string \<Rightarrow> strategy" where
  "select_strategy type =
     (if type = ''savings'' then SavingsInterest
      else if type = ''fixed'' then FixedInterest
      else if type = ''current'' then CurrentInterest
      else InterestStrategy)"

text \<open>
  \<^verbatim>\<open>apply-interest\<close>: nothing catches here, so an unknown id ends the handler at
  \<^verbatim>\<open>acct.type\<close> with the state as it was.
\<close>

definition apply_interest :: "nat option \<Rightarrow> bank \<Rightarrow> bank" where
  "apply_interest i s =
     (case i of
        None \<Rightarrow> s
      | Some k \<Rightarrow>
          if no_id i then s
          else
            (case accounts s k of
               None \<Rightarrow> s
             | Some acct \<Rightarrow>
                (case applyInterest k (select_strategy (acc_type acct)) s of
                   Inl (e, s1) \<Rightarrow> s1
                 | Inr s1 \<Rightarrow> addNotification (Title ''Interest'') (InterestOn (owner acct)) s1)))"

text \<open>
  \<^verbatim>\<open>demo-setup\<close>: the three addresses are \<^verbatim>\<open>`${n.toLowerCase()}@demo.bank`\<close> for the three
  names of the source, 'Alice', 'Bob' and 'CorpX'.
\<close>

definition demo_account :: "string \<Rightarrow> string \<Rightarrow> string \<Rightarrow> real \<Rightarrow> bank \<Rightarrow> bank" where
  "demo_account n email t b s =
     (let acct = (new_Account (nextAcctId s) n t (Fin b))
                   \<lparr>observers := [\<lparr>obs_name = n, obs_email = email\<rparr>]\<rparr>
      in s\<lparr>nextAcctId := nextAcctId s + 1, accounts := (accounts s)(acc_id acct \<mapsto> acct)\<rparr>)"

definition demo_setup :: "bank \<Rightarrow> bank" where
  "demo_setup s =
     addNotification (Title ''Demo'') DemoCreated
       (demo_account ''CorpX'' ''corpx@demo.bank'' ''fixed'' 25000
         (demo_account ''Bob'' ''bob@demo.bank'' ''current'' 1200
           (demo_account ''Alice'' ''alice@demo.bank'' ''savings'' 5000 s)))"

definition clear_all :: "bank \<Rightarrow> bank" where
  "clear_all s = init"

text \<open>\<^verbatim>\<open>subscribe-btn\<close>: \<open>email\<close> is \<^verbatim>\<open>$('subscribe-email').value.trim()\<close>.\<close>

definition subscribe :: "nat \<Rightarrow> string \<Rightarrow> bank \<Rightarrow> bank" where
  "subscribe acct email s =
     (if email = [] then s
      else
        let name = takeWhile (\<lambda>c. c \<noteq> CHR ''@'') email;
            s1 = attach acct \<lparr>obs_name = name, obs_email = email\<rparr> s
        in addNotification (Title ''Subscribe'') (SubscribedTo name (owner_of s1 acct)) s1)"

text \<open>The balance of the account behind a reference.\<close>

definition bal :: "bank \<Rightarrow> nat \<Rightarrow> jsnum option" where
  "bal s r = map_option balance (accounts s r)"

section \<open>Notions used by the properties\<close>

text \<open>
  The sequence the specification compares a transfer with: \<^verbatim>\<open>source.withdraw(amount)\<close>,
  then, unless that threw, \<^verbatim>\<open>target.deposit(amount)\<close>.
\<close>

definition withdraw_then_deposit :: "nat \<Rightarrow> nat \<Rightarrow> jsnum \<Rightarrow> bank \<Rightarrow> result" where
  "withdraw_then_deposit source target amount s =
     (case withdraw source amount s of
        Inl ex \<Rightarrow> Inl ex
      | Inr s1 \<Rightarrow> deposit target amount s1)"

text \<open>The accounts a command refers to, and its amount.\<close>

fun involved :: "command \<Rightarrow> nat list" where
  "involved (DepositCommand acct _) = [acct]"
| "involved (WithdrawCommand acct _) = [acct]"
| "involved (TransferCommand fromAcc toAcc _) = [fromAcc, toAcc]"

fun amount_of :: "command \<Rightarrow> jsnum" where
  "amount_of (DepositCommand _ amount) = amount"
| "amount_of (WithdrawCommand _ amount) = amount"
| "amount_of (TransferCommand _ _ amount) = amount"

text \<open>
  \<open>exact_sum x y\<close>: both Numbers are finite and their real sum is a binary64 value, so that
  \<^verbatim>\<open>x + y\<close> does not round; \<open>exact_diff\<close> likewise for \<^verbatim>\<open>x - y\<close>.
\<close>

fun exact_sum :: "jsnum \<Rightarrow> jsnum \<Rightarrow> bool" where
  "exact_sum (Fin a) (Fin b) = is_double (a + b)"
| "exact_sum _ _ = False"

fun exact_diff :: "jsnum \<Rightarrow> jsnum \<Rightarrow> bool" where
  "exact_diff (Fin a) (Fin b) = is_double (a - b)"
| "exact_diff _ _ = False"

text \<open>The sum and the difference of two finite Numbers as real numbers, without rounding.\<close>

fun real_add :: "jsnum \<Rightarrow> jsnum \<Rightarrow> jsnum" where
  "real_add (Fin a) (Fin b) = Fin (a + b)"
| "real_add x y = js_add x y"

fun real_sub :: "jsnum \<Rightarrow> jsnum \<Rightarrow> jsnum" where
  "real_sub (Fin a) (Fin b) = Fin (a - b)"
| "real_sub x y = js_sub x y"

text \<open>\<open>exact c s\<close>: the balance updates that \<open>execute c\<close> makes in state \<open>s\<close> do not round.\<close>

fun exact :: "command \<Rightarrow> bank \<Rightarrow> bool" where
  "exact (DepositCommand acct amount) s =
     (case accounts s acct of None \<Rightarrow> False | Some a \<Rightarrow> exact_sum (balance a) amount)"
| "exact (WithdrawCommand acct amount) s =
     (case accounts s acct of None \<Rightarrow> False | Some a \<Rightarrow> exact_diff (balance a) amount)"
| "exact (TransferCommand fromAcc toAcc amount) s =
     (case (accounts s fromAcc, accounts s toAcc) of
        (Some a, Some b) \<Rightarrow> exact_diff (balance a) amount \<and> exact_sum (balance b) amount
      | _ \<Rightarrow> False)"

text \<open>\<open>nonneg s r\<close>: the reference resolves to an account whose balance is a Number \<open>\<ge> 0\<close>.\<close>

definition nonneg :: "bank \<Rightarrow> nat \<Rightarrow> bool" where
  "nonneg s r =
     (case accounts s r of
        None \<Rightarrow> False
      | Some a \<Rightarrow> js_le (Fin 0) (balance a) \<and> is_number (balance a))"

text \<open>The balance after interest at rate \<open>r\<close>: \<^verbatim>\<open>balance + balance * r\<close>.\<close>

definition with_interest :: "jsnum \<Rightarrow> jsnum \<Rightarrow> jsnum" where
  "with_interest b r = js_add b (js_mul b r)"

text \<open>The sum of two balances as a real number, when both are finite.\<close>

fun real_sum :: "jsnum option \<Rightarrow> jsnum option \<Rightarrow> real option" where
  "real_sum (Some (Fin a)) (Some (Fin b)) = Some (a + b)"
| "real_sum _ _ = None"

text \<open>The sum of two balances as the program would compute it.\<close>

fun js_sum :: "jsnum option \<Rightarrow> jsnum option \<Rightarrow> jsnum option" where
  "js_sum (Some x) (Some y) = Some (js_add x y)"
| "js_sum _ _ = None"

text \<open>
  Example states. \<open>demo\<close> is the page after \<^verbatim>\<open>demo-setup\<close>: Alice (1001, savings, 5000),
  Bob (1002, current, 1200) and CorpX (1003, fixed, 25000). \<open>small_change\<close> holds two
  accounts opened with the texts 0.3 and 0.7 in the balance field, \<open>tenth\<close> one account
  opened with 0.1, \<open>large\<close> one account opened with 18014398509481984 (that is \<open>2^54\<close>), and
  \<open>overdrawn\<close> one account opened with -100.
\<close>

definition demo :: bank where
  "demo = demo_setup init"

definition small_change :: bank where
  "small_change =
     create_acct ''Ravi'' ''ravi@demo.bank'' ''current'' (fl (7 / 10))
       (create_acct ''Mira'' ''mira@demo.bank'' ''savings'' (fl (3 / 10)) init)"

definition tenth :: bank where
  "tenth = create_acct ''Mira'' ''mira@demo.bank'' ''savings'' (fl (1 / 10)) init"

definition large :: bank where
  "large = create_acct ''Mira'' ''mira@demo.bank'' ''savings'' (Fin 18014398509481984) init"

definition overdrawn :: bank where
  "overdrawn = create_acct ''Mira'' ''mira@demo.bank'' ''savings'' (Fin (- 100)) init"

text \<open>
  The clicks of a user, and the page after a sequence of them. \<open>never_negative\<close>: no account
  of the page has a balance below zero.
\<close>

datatype event =
    CreateAcct string string string jsnum
  | CmdDeposit "nat option" jsnum
  | CmdWithdraw "nat option" jsnum
  | CmdTransfer "nat option" "nat option" jsnum
  | CmdUndo
  | ApplyInterest "nat option"
  | DemoSetup
  | ClearAll
  | Subscribe nat string
  | Unsubscribe nat string

fun handle :: "event \<Rightarrow> bank \<Rightarrow> bank" where
  "handle (CreateAcct name owner_email type parsed) s = create_acct name owner_email type parsed s"
| "handle (CmdDeposit i amount) s = cmd_deposit i amount s"
| "handle (CmdWithdraw i amount) s = cmd_withdraw i amount s"
| "handle (CmdTransfer fromId toId amount) s = cmd_transfer fromId toId amount s"
| "handle CmdUndo s = cmd_undo s"
| "handle (ApplyInterest i) s = apply_interest i s"
| "handle DemoSetup s = demo_setup s"
| "handle ClearAll s = clear_all s"
| "handle (Subscribe acct email) s = subscribe acct email s"
| "handle (Unsubscribe acct email) s = detach acct email s"

definition run :: "event list \<Rightarrow> bank \<Rightarrow> bank" where
  "run evs s = fold handle evs s"

text \<open>
  The page \<open>three_deposits\<close>: Bea opens account 1001 with 100 and Zed account 1002 with 0;
  then 50 is deposited for Bea, and 0.1 and 0.7 for Zed, each with the deposit button.
\<close>

definition three_deposits :: bank where
  "three_deposits =
     run [CreateAcct ''Bea'' ''bea@demo.bank'' ''savings'' (Fin 100),
          CreateAcct ''Zed'' ''zed@demo.bank'' ''savings'' (Fin 0),
          CmdDeposit (Some 1001) (Fin 50),
          CmdDeposit (Some 1002) (fl (1 / 10)),
          CmdDeposit (Some 1002) (fl (7 / 10))] init"

definition never_negative :: "bank \<Rightarrow> bool" where
  "never_negative s \<longleftrightarrow> (\<forall>a \<in> ran (accounts s). \<not> js_lt (balance a) (Fin 0))"

fun opens_negative :: "event \<Rightarrow> bool" where
  "opens_negative (CreateAcct name owner_email type parsed) = js_lt parsed (Fin 0)"
| "opens_negative _ = False"

section \<open>Rounding: bounds and monotonicity\<close>

lemma pow2_powi: "pow2 e = 2 powi e"
  by (simp add: pow2_def power_int_def inverse_eq_divide power_one_over)

lemma pow2_pos [simp]: "0 < pow2 e"
  by (simp add: pow2_powi)

lemma pow2_nonneg [simp]: "0 \<le> pow2 e"
  using pow2_pos[of e] by (rule less_imp_le)

lemma pow2_add: "pow2 (a + b) = pow2 a * pow2 b"
  by (simp add: pow2_powi power_int_add)

lemma pow2_mono: "a \<le> b \<Longrightarrow> pow2 a \<le> pow2 b"
  by (simp add: pow2_powi power_int_increasing)

lemma pow2_nat: "0 \<le> e \<Longrightarrow> pow2 e = 2 ^ nat e"
  by (simp add: pow2_def)

lemma pow2_neg: "0 \<le> e \<Longrightarrow> pow2 (- e) = 1 / 2 ^ nat e"
  by (cases "e = 0") (simp_all add: pow2_def)

lemma ilog2_bounds:
  assumes "0 < q"
  shows "pow2 (ilog2 q) \<le> q" and "q < pow2 (ilog2 q + 1)"
proof -
  have "pow2 (ilog2 q) \<le> q \<and> q < pow2 (ilog2 q + 1)"
  proof (cases "1 \<le> q")
    case True
    define n where "n = \<lfloor>q\<rfloor>"
    have n1: "1 \<le> n" using True by (simp add: n_def)
    then have npos: "0 < n" by simp
    from bitlen_bounds[OF npos]
    have lo: "2 ^ nat (bitlen n - 1) \<le> n" and hi: "n < 2 ^ nat (bitlen n)" by auto
    have bl: "1 \<le> bitlen n" using npos by (simp add: bitlen_alt_def)
    have il: "ilog2 q = bitlen n - 1" using True by (simp add: ilog2_def n_def)
    have "pow2 (bitlen n - 1) = of_int (2 ^ nat (bitlen n - 1))"
      using bl by (simp add: pow2_nat)
    also have "\<dots> \<le> of_int n" using lo by (simp only: of_int_le_iff)
    also have "\<dots> \<le> q" by (simp add: n_def)
    finally have A: "pow2 (ilog2 q) \<le> q" by (simp add: il)
    have "n + 1 \<le> 2 ^ nat (bitlen n)" using hi by simp
    then have "(of_int (n + 1) :: real) \<le> of_int (2 ^ nat (bitlen n))"
      by (simp only: of_int_le_iff)
    moreover have "q < of_int (n + 1)" by (simp add: n_def)
    ultimately have "q < of_int (2 ^ nat (bitlen n))" by linarith
    then have B: "q < pow2 (ilog2 q + 1)" using bl by (simp add: il pow2_nat)
    from A B show ?thesis ..
  next
    case False
    then have q1: "q < 1" by simp
    define m where "m = \<lceil>1 / q\<rceil> - 1"
    have inv1: "1 < 1 / q" using assms q1 by simp
    have m1: "1 \<le> m" using inv1 by (simp add: m_def less_ceiling_iff)
    then have mpos: "0 < m" by simp
    from bitlen_bounds[OF mpos]
    have lo: "2 ^ nat (bitlen m - 1) \<le> m" and hi: "m < 2 ^ nat (bitlen m)" by auto
    have bl: "1 \<le> bitlen m" using mpos by (simp add: bitlen_alt_def)
    have il: "ilog2 q = - bitlen m" using False by (simp add: ilog2_def m_def)
    have "1 / q \<le> of_int (m + 1)" by (simp add: m_def)
    also have "(of_int (m + 1) :: real) \<le> of_int (2 ^ nat (bitlen m))"
      using hi by (simp only: of_int_le_iff)
    finally have "1 / q \<le> 2 ^ nat (bitlen m)" by simp
    then have "1 / 2 ^ nat (bitlen m) \<le> q"
      using assms by (simp add: field_simps)
    then have A: "pow2 (ilog2 q) \<le> q" using bl by (simp add: il pow2_neg)
    have "of_int m < 1 / q" using ceiling_correct[of "1 / q"] by (simp add: m_def)
    moreover have "(2 ^ nat (bitlen m - 1) :: real) \<le> of_int m"
      using of_int_le_iff[of "2 ^ nat (bitlen m - 1)" m, where ?'a = real] lo by simp
    ultimately have "2 ^ nat (bitlen m - 1) < 1 / q" by linarith
    then have "q < 1 / 2 ^ nat (bitlen m - 1)"
      using assms by (simp add: field_simps)
    moreover have "pow2 (- bitlen m + 1) = 1 / 2 ^ nat (bitlen m - 1)"
      using pow2_neg[of "bitlen m - 1"] bl by simp
    ultimately have B: "q < pow2 (ilog2 q + 1)" by (simp add: il)
    from A B show ?thesis ..
  qed
  then show "pow2 (ilog2 q) \<le> q" and "q < pow2 (ilog2 q + 1)" by simp_all
qed


lemma pow2_less_cancel: "pow2 a < pow2 b \<Longrightarrow> a < b"
  using pow2_mono[of b a] by (cases "a < b") simp_all

lemma ilog2_mono:
  assumes "0 < x" and "x \<le> y"
  shows "ilog2 x \<le> ilog2 y"
proof -
  have "0 < y" using assms by simp
  have "pow2 (ilog2 x) \<le> x" using ilog2_bounds(1)[OF assms(1)] .
  also have "x \<le> y" by fact
  also have "y < pow2 (ilog2 y + 1)" using ilog2_bounds(2)[OF \<open>0 < y\<close>] .
  finally have "ilog2 x < ilog2 y + 1" by (rule pow2_less_cancel)
  then show ?thesis by simp
qed

lemma round_half_even_bounds:
  "\<lfloor>x\<rfloor> \<le> round_half_even x" "round_half_even x \<le> \<lfloor>x\<rfloor> + 1"
  by (simp_all add: round_half_even_def Let_def)

lemma round_half_even_of_int [simp]: "round_half_even (of_int n) = n"
  by (simp add: round_half_even_def)

lemma round_half_even_mono:
  assumes "x \<le> y"
  shows "round_half_even x \<le> round_half_even y"
proof (cases "\<lfloor>x\<rfloor> = \<lfloor>y\<rfloor>")
  case True
  with assms show ?thesis
    by (auto simp add: round_half_even_def Let_def)
next
  case False
  then have "\<lfloor>x\<rfloor> + 1 \<le> \<lfloor>y\<rfloor>"
    using floor_mono[OF assms] by simp
  then show ?thesis
    using round_half_even_bounds(2)[of x] round_half_even_bounds(1)[of y] by linarith
qed

lemma fl_pos_eq:
  "fl_pos q = PosInf \<or>
   fl_pos q =
     Fin (of_int (round_half_even (q / pow2 (max (- 1074) (ilog2 q - 52))))
          * pow2 (max (- 1074) (ilog2 q - 52)))"
  by (simp add: fl_pos_def Let_def)

lemma fl_pos_ge:
  assumes "0 < x" and "x \<le> y" and "fl_pos x = Fin x"
  shows "js_le (Fin x) (fl_pos y)"
proof -
  define ex where "ex = max (- 1074) (ilog2 x - 52)"
  define ey where "ey = max (- 1074) (ilog2 y - 52)"
  define ry where "ry = of_int (round_half_even (y / pow2 ey)) * pow2 ey"
  have ypos: "0 < y" using assms by simp
  have exy: "ex \<le> ey" using ilog2_mono[OF assms(1,2)] by (simp add: ex_def ey_def)
  have rx: "of_int (round_half_even (x / pow2 ex)) * pow2 ex = x"
    using assms(3) by (auto simp add: fl_pos_def Let_def ex_def split: if_splits)
  have "x \<le> ry"
  proof (cases "ex = ey")
    case True
    have "x / pow2 ey \<le> y / pow2 ey"
      using assms(2) by (simp add: divide_right_mono)
    then have "round_half_even (x / pow2 ey) \<le> round_half_even (y / pow2 ey)"
      by (rule round_half_even_mono)
    then have "of_int (round_half_even (x / pow2 ey)) * pow2 ey \<le> ry"
      unfolding ry_def by (simp add: mult_right_mono)
    then show ?thesis using rx True by simp
  next
    case False
    then have lt: "ex + 1 \<le> ey" using exy by simp
    then have ey: "ey = ilog2 y - 52" by (auto simp add: ey_def ex_def max_def split: if_splits)
    have "pow2 52 * pow2 ey = pow2 (ilog2 y)"
      using pow2_add[of 52 ey] by (simp add: ey)
    also have "\<dots> \<le> y" using ilog2_bounds(1)[OF ypos] .
    finally have "pow2 52 \<le> y / pow2 ey"
      by (simp add: pos_le_divide_eq)
    then have "round_half_even (pow2 52) \<le> round_half_even (y / pow2 ey)"
      by (rule round_half_even_mono)
    moreover have "pow2 52 = of_int (2 ^ 52)" by (simp add: pow2_def)
    ultimately have "(2 ^ 52 :: int) \<le> round_half_even (y / pow2 ey)"
      by (simp only: round_half_even_of_int)
    then have "(of_int (2 ^ 52) :: real) \<le> of_int (round_half_even (y / pow2 ey))"
      by (simp only: of_int_le_iff)
    then have "of_int (2 ^ 52) * pow2 ey \<le> ry"
      unfolding ry_def by (rule mult_right_mono) simp
    moreover have "of_int (2 ^ 52) * pow2 ey = pow2 (ey + 52)"
      using pow2_add[of ey 52] by (simp add: pow2_def)
    ultimately have low: "pow2 (ey + 52) \<le> ry" by simp
    have "ilog2 x - 52 \<le> ex" by (simp add: ex_def)
    then have "ilog2 x + 1 \<le> ey + 52" using lt by simp
    then have "pow2 (ilog2 x + 1) \<le> pow2 (ey + 52)" by (rule pow2_mono)
    then show ?thesis
      using ilog2_bounds(2)[OF assms(1)] low by linarith
  qed
  then show ?thesis
    using fl_pos_eq[of y] by (auto simp add: ry_def ey_def)
qed

lemma fl_pos_nonneg:
  assumes "0 < q"
  shows "js_le (Fin 0) (fl_pos q)"
proof -
  define e where "e = max (- 1074) (ilog2 q - 52)"
  have "0 \<le> q / pow2 e" using assms by simp
  then have "0 \<le> \<lfloor>q / pow2 e\<rfloor>" by simp
  then have "0 \<le> round_half_even (q / pow2 e)"
    using round_half_even_bounds(1)[of "q / pow2 e"] by linarith
  then have "0 \<le> of_int (round_half_even (q / pow2 e)) * pow2 e" by simp
  then show ?thesis
    using fl_pos_eq[of q] by (auto simp add: e_def)
qed

lemma fl_nonneg: "0 \<le> q \<Longrightarrow> js_le (Fin 0) (fl q)"
  using fl_pos_nonneg[of q] by (simp add: fl_def)

lemma fl_ge:
  assumes "is_double x" and "0 < x" and "x \<le> y"
  shows "js_le (Fin x) (fl y)"
proof -
  have "fl_pos x = Fin x" using assms(1,2) by (simp add: is_double_def fl_def)
  from fl_pos_ge[OF assms(2,3) this] show ?thesis using assms(2,3) by (simp add: fl_def)
qed

section \<open>Evaluation rules and frame lemmas\<close>

lemmas fl_eval = fl_def fl_pos_def ilog2_def round_half_even_def pow2_def bitlen_def
  compute_floorlog Let_def

lemmas page_eval = create_acct_def demo_setup_def demo_account_def new_Account_def init_def
  attach_def addNotification_def js_not_def

lemma js_gt_zero_not_le: "js_gt x (Fin 0) \<Longrightarrow> \<not> js_le x (Fin 0)"
  by (cases x) (simp_all add: js_gt_def)

lemma js_le_not_gt: "js_le x y \<Longrightarrow> \<not> js_gt x y"
  by (cases x; cases y) (simp_all add: js_gt_def)

lemma fold_addNotification_frame:
  "accounts (fold (\<lambda>obs. addNotification (f obs) m) xs s) = accounts s"
  "commandStack (fold (\<lambda>obs. addNotification (f obs) m) xs s) = commandStack s"
  "command_history (fold (\<lambda>obs. addNotification (f obs) m) xs s) = command_history s"
  "nextAcctId (fold (\<lambda>obs. addNotification (f obs) m) xs s) = nextAcctId s"
  by (induction xs arbitrary: s) (simp_all add: addNotification_def)

lemma notify_frame [simp]:
  "accounts (notify a m s) = accounts s"
  "commandStack (notify a m s) = commandStack s"
  "command_history (notify a m s) = command_history s"
  "nextAcctId (notify a m s) = nextAcctId s"
  by (simp_all add: notify_def fold_addNotification_frame)

lemma addNotification_frame [simp]:
  "accounts (addNotification t m s) = accounts s"
  "commandStack (addNotification t m s) = commandStack s"
  "command_history (addNotification t m s) = command_history s"
  "nextAcctId (addNotification t m s) = nextAcctId s"
  by (simp_all add: addNotification_def)

lemma thrown_simps [simp]:
  "thrown (Inl (e, s)) = Some e" "thrown (Inr s) = None"
  "state_after (Inl (e, s)) = s" "state_after (Inr s) = s"
  by (simp_all add: thrown_def state_after_def)

text \<open>What a call of deposit does, by cases.\<close>

lemma deposit_cases:
  "deposit this amount s =
     (case accounts s this of
        None \<Rightarrow> Inl (TypeError, s)
      | Some a \<Rightarrow>
          if js_le amount (Fin 0) then Inl (Error ''Amount must be > 0'', s)
          else Inr (notify (a\<lparr>balance := js_add (balance a) amount\<rparr>)
                     (Deposited amount (js_add (balance a) amount))
                     (s\<lparr>accounts := (accounts s)(this \<mapsto> a\<lparr>balance := js_add (balance a) amount\<rparr>)\<rparr>)))"
  by (simp add: deposit_def Let_def split: option.splits)

lemma withdraw_cases:
  "withdraw this amount s =
     (case accounts s this of
        None \<Rightarrow> Inl (TypeError, s)
      | Some a \<Rightarrow>
          if js_le amount (Fin 0) then Inl (Error ''Amount must be > 0'', s)
          else if js_gt amount (balance a) then Inl (Error ''Insufficient funds'', s)
          else Inr (notify (a\<lparr>balance := js_sub (balance a) amount\<rparr>)
                     (Withdrawn amount (js_sub (balance a) amount))
                     (s\<lparr>accounts := (accounts s)(this \<mapsto> a\<lparr>balance := js_sub (balance a) amount\<rparr>)\<rparr>)))"
  by (simp add: withdraw_def Let_def split: option.splits)

lemma deposit_thrown_state: "thrown (deposit this amount s) \<noteq> None \<Longrightarrow> state_after (deposit this amount s) = s"
  by (simp add: deposit_cases split: option.splits if_splits)

lemma withdraw_thrown_state: "thrown (withdraw this amount s) \<noteq> None \<Longrightarrow> state_after (withdraw this amount s) = s"
  by (simp add: withdraw_cases split: option.splits if_splits)

lemma exact_sum_add: "exact_sum x y \<Longrightarrow> js_add x y = real_add x y"
  by (cases x; cases y) (simp_all add: is_double_def)

lemma exact_diff_sub: "exact_diff x y \<Longrightarrow> js_sub x y = real_sub x y"
  by (cases x; cases y) (simp_all add: is_double_def)

section \<open>Lemmas about the operations\<close>

lemma demo_accounts:
  "accounts demo 1001 =
     Some \<lparr>acc_id = 1001, owner = ''Alice'', acc_type = ''savings'', balance = Fin 5000,
           observers = [\<lparr>obs_name = ''Alice'', obs_email = ''alice@demo.bank''\<rparr>],
           subscribers = []\<rparr>"
  "accounts demo 1002 =
     Some \<lparr>acc_id = 1002, owner = ''Bob'', acc_type = ''current'', balance = Fin 1200,
           observers = [\<lparr>obs_name = ''Bob'', obs_email = ''bob@demo.bank''\<rparr>],
           subscribers = []\<rparr>"
  "accounts demo 1003 =
     Some \<lparr>acc_id = 1003, owner = ''CorpX'', acc_type = ''fixed'', balance = Fin 25000,
           observers = [\<lparr>obs_name = ''CorpX'', obs_email = ''corpx@demo.bank''\<rparr>],
           subscribers = []\<rparr>"
  by (simp_all add: demo_def page_eval)

lemma demo_stack: "commandStack demo = []" "command_history demo = []"
  by (simp_all add: demo_def page_eval)

text \<open>After a withdrawal that returned, a deposit of the same amount returns too.\<close>

lemma withdraw_returns_D:
  assumes "thrown (withdraw this amount s) = None"
  shows "\<exists>a. accounts s this = Some a \<and> \<not> js_le amount (Fin 0) \<and> \<not> js_gt amount (balance a) \<and>
             accounts (state_after (withdraw this amount s)) =
               (accounts s)(this \<mapsto> a\<lparr>balance := js_sub (balance a) amount\<rparr>)"
  using assms by (auto simp add: withdraw_cases split: option.splits if_splits)

lemma deposit_returns_D:
  assumes "thrown (deposit this amount s) = None"
  shows "\<exists>a. accounts s this = Some a \<and> \<not> js_le amount (Fin 0) \<and>
             accounts (state_after (deposit this amount s)) =
               (accounts s)(this \<mapsto> a\<lparr>balance := js_add (balance a) amount\<rparr>)"
  using assms by (auto simp add: deposit_cases split: option.splits if_splits)

lemma deposit_returns_I:
  assumes "accounts s this = Some a" and "\<not> js_le amount (Fin 0)"
  shows "thrown (deposit this amount s) = None"
    and "accounts (state_after (deposit this amount s)) =
           (accounts s)(this \<mapsto> a\<lparr>balance := js_add (balance a) amount\<rparr>)"
  using assms by (simp_all add: deposit_cases)

lemma withdraw_returns_I:
  assumes "accounts s this = Some a" and "\<not> js_le amount (Fin 0)" and "\<not> js_gt amount (balance a)"
  shows "thrown (withdraw this amount s) = None"
    and "accounts (state_after (withdraw this amount s)) =
           (accounts s)(this \<mapsto> a\<lparr>balance := js_sub (balance a) amount\<rparr>)"
  using assms by (simp_all add: withdraw_cases)

text \<open>The calls of a transfer, one after the other.\<close>

lemma transferTo_cases:
  "transferTo this target amount s =
     (case accounts s this of
        None \<Rightarrow> Inl (TypeError, s)
      | Some a \<Rightarrow>
         (case accounts s target of
            None \<Rightarrow> Inl (TypeError, s)
          | Some b \<Rightarrow>
              if acc_id a = acc_id b then Inl (Error ''Cannot transfer to same account'', s)
              else if js_le amount (Fin 0) then Inl (Error ''Amount must be > 0'', s)
              else if js_gt amount (balance a) then Inl (Error ''Insufficient funds'', s)
              else
                Inr (notify b (ReceivedFrom amount (owner a) (acc_id a))
                      (notify a (TransferredTo amount (owner b) (acc_id b))
                        (state_after (deposit target amount (state_after (withdraw this amount s))))))))"
proof (cases "accounts s this")
  case None
  then show ?thesis by (simp add: transferTo_def)
next
  case (Some a)
  note a = this
  show ?thesis
  proof (cases "accounts s target")
    case None
    with a show ?thesis by (simp add: transferTo_def)
  next
    case (Some b)
    note b = this
    show ?thesis
    proof (cases "acc_id a = acc_id b \<or> js_le amount (Fin 0) \<or> js_gt amount (balance a)")
      case True
      with a b show ?thesis by (auto simp add: transferTo_def withdraw_cases)
    next
      case False
      then have ne: "this \<noteq> target" using a b by auto
      from False have w: "thrown (withdraw this amount s) = None"
        using withdraw_returns_I(1)[OF a, of amount] by simp
      have tgt: "accounts (state_after (withdraw this amount s)) target = Some b"
        using withdraw_returns_I(2)[OF a, of amount] False b ne by simp
      have d: "thrown (deposit target amount (state_after (withdraw this amount s))) = None"
        using deposit_returns_I(1)[OF tgt, of amount] False by simp
      obtain s1 where s1: "withdraw this amount s = Inr s1"
        using w by (cases "withdraw this amount s") auto
      obtain s2 where s2: "deposit target amount s1 = Inr s2"
        using d s1 by (cases "deposit target amount s1") auto
      show ?thesis using a b False s1 s2 by (simp add: transferTo_def)
    qed
  qed
qed

lemma transferTo_thrown_state:
  "thrown (transferTo this target amount s) \<noteq> None \<Longrightarrow> state_after (transferTo this target amount s) = s"
  by (simp add: transferTo_cases split: option.splits if_splits)

lemma transferTo_returns_D:
  assumes "thrown (transferTo this target amount s) = None"
  shows "\<exists>a b. accounts s this = Some a \<and> accounts s target = Some b \<and> this \<noteq> target \<and>
           acc_id a \<noteq> acc_id b \<and> \<not> js_le amount (Fin 0) \<and> \<not> js_gt amount (balance a) \<and>
           accounts (state_after (transferTo this target amount s)) =
             (accounts s)(this \<mapsto> a\<lparr>balance := js_sub (balance a) amount\<rparr>,
                          target \<mapsto> b\<lparr>balance := js_add (balance b) amount\<rparr>)"
proof -
  from assms obtain a b where a: "accounts s this = Some a" and b: "accounts s target = Some b"
    and c: "acc_id a \<noteq> acc_id b" "\<not> js_le amount (Fin 0)" "\<not> js_gt amount (balance a)"
    by (auto simp add: transferTo_cases split: option.splits if_splits)
  have ne: "this \<noteq> target" using a b c by auto
  have w: "accounts (state_after (withdraw this amount s)) =
             (accounts s)(this \<mapsto> a\<lparr>balance := js_sub (balance a) amount\<rparr>)"
    using withdraw_returns_I(2)[OF a c(2,3)] .
  then have tgt: "accounts (state_after (withdraw this amount s)) target = Some b"
    using b ne by simp
  have d: "accounts (state_after (deposit target amount (state_after (withdraw this amount s)))) =
             (accounts s)(this \<mapsto> a\<lparr>balance := js_sub (balance a) amount\<rparr>,
                          target \<mapsto> b\<lparr>balance := js_add (balance b) amount\<rparr>)"
    using deposit_returns_I(2)[OF tgt c(2)] w by simp
  show ?thesis
    using a b c ne d by (simp add: transferTo_cases)
qed

lemma demo_transfer:
  "thrown (transferTo 1001 1002 (Fin 300) demo) = None"
  "bal (state_after (transferTo 1001 1002 (Fin 300) demo)) 1001 = Some (Fin 4700)"
  "bal (state_after (transferTo 1001 1002 (Fin 300) demo)) 1002 = Some (Fin 1500)"
  "bal (state_after (transferTo 1001 1002 (Fin 300) demo)) 1003 = Some (Fin 25000)"
proof -
  have ar: "js_sub (Fin 5000) (Fin 300) = Fin 4700" "js_add (Fin 1200) (Fin 300) = Fin 1500"
    by (simp_all add: fl_eval)
  have r: "thrown (transferTo 1001 1002 (Fin 300) demo) = None"
    by (simp add: transferTo_cases demo_accounts js_gt_def)
  from transferTo_returns_D[OF r] ar
  have acc: "accounts (state_after (transferTo 1001 1002 (Fin 300) demo)) =
     (accounts demo)(1001 \<mapsto> (the (accounts demo 1001))\<lparr>balance := Fin 4700\<rparr>,
                     1002 \<mapsto> (the (accounts demo 1002))\<lparr>balance := Fin 1500\<rparr>)"
    by (auto simp add: demo_accounts)
  show "thrown (transferTo 1001 1002 (Fin 300) demo) = None" by (rule r)
  show "bal (state_after (transferTo 1001 1002 (Fin 300) demo)) 1001 = Some (Fin 4700)"
    by (simp add: bal_def acc demo_accounts)
  show "bal (state_after (transferTo 1001 1002 (Fin 300) demo)) 1002 = Some (Fin 1500)"
    by (simp add: bal_def acc demo_accounts)
  show "bal (state_after (transferTo 1001 1002 (Fin 300) demo)) 1003 = Some (Fin 25000)"
    by (simp add: bal_def acc demo_accounts)
qed

text \<open>The two accounts of small_change.\<close>

lemma small_change_accounts:
  "accounts small_change 1001 =
     Some \<lparr>acc_id = 1001, owner = ''Mira'', acc_type = ''savings'',
           balance = Fin (5404319552844595 / 18014398509481984),
           observers = [\<lparr>obs_name = ''Mira'', obs_email = ''mira@demo.bank''\<rparr>],
           subscribers = []\<rparr>"
  "accounts small_change 1002 =
     Some \<lparr>acc_id = 1002, owner = ''Ravi'', acc_type = ''current'',
           balance = Fin (3152519739159347 / 4503599627370496),
           observers = [\<lparr>obs_name = ''Ravi'', obs_email = ''ravi@demo.bank''\<rparr>],
           subscribers = []\<rparr>"
  by (simp_all add: small_change_def page_eval fl_eval)

lemma tenth_literal: "fl (1 / 10) = Fin (3602879701896397 / 36028797018963968)"
  by (simp add: fl_eval)

lemma small_change_transfer:
  "thrown (transferTo 1001 1002 (fl (1 / 10)) small_change) = None"
  "bal (state_after (transferTo 1001 1002 (fl (1 / 10)) small_change)) 1001 =
     Some (Fin (7205759403792793 / 36028797018963968))"
  "bal (state_after (transferTo 1001 1002 (fl (1 / 10)) small_change)) 1002 =
     Some (Fin (7205759403792793 / 9007199254740992))"
proof -
  have ar: "js_sub (Fin (5404319552844595 / 18014398509481984)) (Fin (3602879701896397 / 36028797018963968))
              = Fin (7205759403792793 / 36028797018963968)"
           "js_add (Fin (3152519739159347 / 4503599627370496)) (Fin (3602879701896397 / 36028797018963968))
              = Fin (7205759403792793 / 9007199254740992)"
    by (simp_all add: fl_eval)
  have r: "thrown (transferTo 1001 1002 (fl (1 / 10)) small_change) = None"
    by (simp add: transferTo_cases small_change_accounts tenth_literal js_gt_def)
  from transferTo_returns_D[OF r] ar
  have acc: "accounts (state_after (transferTo 1001 1002 (fl (1 / 10)) small_change)) =
     (accounts small_change)
       (1001 \<mapsto> (the (accounts small_change 1001))\<lparr>balance := Fin (7205759403792793 / 36028797018963968)\<rparr>,
        1002 \<mapsto> (the (accounts small_change 1002))\<lparr>balance := Fin (7205759403792793 / 9007199254740992)\<rparr>)"
    by (auto simp add: small_change_accounts tenth_literal)
  show "thrown (transferTo 1001 1002 (fl (1 / 10)) small_change) = None" by (rule r)
  show "bal (state_after (transferTo 1001 1002 (fl (1 / 10)) small_change)) 1001 =
     Some (Fin (7205759403792793 / 36028797018963968))"
    by (simp add: bal_def acc small_change_accounts)
  show "bal (state_after (transferTo 1001 1002 (fl (1 / 10)) small_change)) 1002 =
     Some (Fin (7205759403792793 / 9007199254740992))"
    by (simp add: bal_def acc small_change_accounts)
qed

lemma applyInterest_cases:
  "applyInterest this strat s =
     (case accounts s this of
        None \<Rightarrow> Inl (TypeError, s)
      | Some a \<Rightarrow>
          Inr (notify (a\<lparr>balance := js_add (balance a) (calculate strat (balance a))\<rparr>)
                (InterestApplied (calculate strat (balance a))
                   (js_add (balance a) (calculate strat (balance a))))
                (s\<lparr>accounts := (accounts s)
                     (this \<mapsto> a\<lparr>balance := js_add (balance a) (calculate strat (balance a))\<rparr>)\<rparr>)))"
  by (simp add: applyInterest_def Let_def split: option.splits)

lemma apply_interest_bal:
  assumes "accounts s k = Some a" and "k \<noteq> 0"
  shows "bal (apply_interest (Some k) s) k =
           Some (js_add (balance a) (calculate (select_strategy (acc_type a)) (balance a)))"
  using assms by (simp add: apply_interest_def no_id_def applyInterest_cases bal_def)

text \<open>The three rates as binary64 values (\<open>4 / 100\<close> is \<open>1 / 25\<close>, \<open>5 / 1000\<close> is \<open>1 / 200\<close>).\<close>

lemma interest_literals:
  "fl (1 / 25) = Fin (5764607523034235 / 144115188075855872)"
  "fl (7 / 100) = Fin (1261007895663739 / 18014398509481984)"
  "fl (1 / 200) = Fin (5764607523034235 / 1152921504606846976)"
  by (simp_all add: fl_eval)

lemma deposit_frame [simp]:
  "commandStack (state_after (deposit this amount s)) = commandStack s"
  "command_history (state_after (deposit this amount s)) = command_history s"
  by (simp_all add: deposit_cases split: option.splits)

lemma withdraw_frame [simp]:
  "commandStack (state_after (withdraw this amount s)) = commandStack s"
  "command_history (state_after (withdraw this amount s)) = command_history s"
  by (simp_all add: withdraw_cases split: option.splits)

lemma transferTo_frame [simp]:
  "commandStack (state_after (transferTo this target amount s)) = commandStack s"
  "command_history (state_after (transferTo this target amount s)) = command_history s"
  by (simp_all add: transferTo_cases split: option.splits)

lemma execute_frame [simp]:
  "commandStack (state_after (execute cmd s)) = commandStack s"
  "command_history (state_after (execute cmd s)) = command_history s"
  by (cases cmd; simp)+

lemma executeCommand_cases:
  "executeCommand cmd s =
     (case thrown (execute cmd s) of
        None \<Rightarrow> logCommand cmd ((state_after (execute cmd s))\<lparr>commandStack := commandStack s @ [cmd]\<rparr>)
      | Some err \<Rightarrow> addNotification (Title ''Error'') (ErrorMessage err) (state_after (execute cmd s)))"
proof (cases "execute cmd s")
  case (Inl ex)
  then show ?thesis by (cases ex) (simp add: executeCommand_def)
next
  case (Inr s1)
  have "commandStack s1 = commandStack s"
    using execute_frame(1)[of cmd s] Inr by simp
  with Inr show ?thesis by (simp add: executeCommand_def)
qed

lemma undo_frame [simp]:
  "commandStack (state_after (undo cmd s)) = commandStack s"
proof (cases cmd)
  case (DepositCommand k x)
  then show ?thesis
    using withdraw_frame(1)[of k x s]
    by (cases "withdraw k x s") auto
next
  case (WithdrawCommand k x)
  then show ?thesis
    using deposit_frame(1)[of k x s]
    by (cases "deposit k x s") auto
next
  case (TransferCommand i j x)
  show ?thesis
  proof (cases "withdraw j x s")
    case (Inl ex)
    then show ?thesis
      using TransferCommand withdraw_frame(1)[of j x s] by (cases ex) simp
  next
    case (Inr s1)
    then have s1: "commandStack s1 = commandStack s"
      using withdraw_frame(1)[of j x s] by simp
    show ?thesis
      using TransferCommand Inr s1 deposit_frame(1)[of i x s1]
      by (cases "deposit i x s1") auto
  qed
qed

lemma cmd_undo_cases:
  "cmd_undo s =
     (if commandStack s = [] then s
      else
        (case thrown (undo (last (commandStack s)) (s\<lparr>commandStack := butlast (commandStack s)\<rparr>)) of
           None \<Rightarrow>
             addNotification (Title ''Undo'') (CommandUndone (constructor_name (last (commandStack s))))
               (state_after (undo (last (commandStack s)) (s\<lparr>commandStack := butlast (commandStack s)\<rparr>)))
         | Some e \<Rightarrow>
             addNotification (Title ''Undo Error'') (ErrorMessage e)
               (state_after (undo (last (commandStack s)) (s\<lparr>commandStack := butlast (commandStack s)\<rparr>)))))"
proof (cases "commandStack s = []")
  case True
  then show ?thesis by (simp add: cmd_undo_def)
next
  case False
  show ?thesis
  proof (cases "undo (last (commandStack s)) (s\<lparr>commandStack := butlast (commandStack s)\<rparr>)")
    case (Inl ex)
    with False show ?thesis by (cases ex) (simp add: cmd_undo_def Let_def)
  next
    case (Inr s1)
    with False show ?thesis by (simp add: cmd_undo_def Let_def)
  qed
qed

lemma js_add_ge:
  assumes "js_le (Fin 0) b" and "is_number x" and "\<not> js_le x (Fin 0)"
  shows "\<not> js_gt x (js_add b x)"
proof (cases b)
  case (Fin y)
  then have y: "0 \<le> y" using assms(1) by simp
  show ?thesis
  proof (cases x)
    case (Fin z)
    then have z: "0 < z" "is_double z" using assms(2,3) by simp_all
    have "js_le (Fin z) (fl (y + z))"
      using fl_ge[OF z(2) z(1), of "y + z"] y by simp
    then show ?thesis
      using \<open>b = Fin y\<close> Fin by (simp add: js_le_not_gt)
  qed (use assms Fin in \<open>simp_all add: js_gt_def\<close>)
next
  case PosInf
  then show ?thesis using assms by (cases x) (simp_all add: js_gt_def)
qed (use assms in simp_all)

lemma exact_sum_undo:
  assumes "exact_sum b x" and "is_number b"
  shows "js_sub (js_add b x) x = b"
  using assms by (cases b; cases x) (simp_all add: is_double_def)

lemma exact_diff_undo:
  assumes "exact_diff b x" and "is_number b"
  shows "js_add (js_sub b x) x = b"
  using assms by (cases b; cases x) (simp_all add: is_double_def)

lemma undo_deposit_cases:
  "thrown (undo (DepositCommand k x) s) = thrown (withdraw k x s)"
  "accounts (state_after (undo (DepositCommand k x) s)) = accounts (state_after (withdraw k x s))"
  by (cases "withdraw k x s"; auto)+

lemma undo_withdraw_cases:
  "thrown (undo (WithdrawCommand k x) s) = thrown (deposit k x s)"
  "accounts (state_after (undo (WithdrawCommand k x) s)) = accounts (state_after (deposit k x s))"
  by (cases "deposit k x s"; auto)+

lemma undo_transfer_cases:
  assumes "thrown (withdraw j x s) = None"
  shows "thrown (undo (TransferCommand i j x) s) = thrown (deposit i x (state_after (withdraw j x s)))"
    and "accounts (state_after (undo (TransferCommand i j x) s)) =
           accounts (state_after (deposit i x (state_after (withdraw j x s))))"
proof -
  from assms obtain s1 where s1: "withdraw j x s = Inr s1"
    by (cases "withdraw j x s") auto
  show "thrown (undo (TransferCommand i j x) s) = thrown (deposit i x (state_after (withdraw j x s)))"
    using s1 by (cases "deposit i x s1") auto
  show "accounts (state_after (undo (TransferCommand i j x) s)) =
           accounts (state_after (deposit i x (state_after (withdraw j x s))))"
    using s1 by (cases "deposit i x s1") auto
qed

lemma undo_deposit_after_execute:
  assumes "thrown (deposit k x s) = None" and "nonneg s k" and "is_number x"
  shows "thrown (withdraw k x (state_after (deposit k x s))) = None"
    and "exact (DepositCommand k x) s \<Longrightarrow>
           bal (state_after (withdraw k x (state_after (deposit k x s)))) k = bal s k"
proof -
  from deposit_returns_D[OF assms(1)] obtain a where
    a: "accounts s k = Some a" and pos: "\<not> js_le x (Fin 0)"
    and acc: "accounts (state_after (deposit k x s)) = (accounts s)(k \<mapsto> a\<lparr>balance := js_add (balance a) x\<rparr>)"
    by blast
  have nn: "js_le (Fin 0) (balance a)" "is_number (balance a)"
    using assms(2) a by (simp_all add: nonneg_def)
  have a1: "accounts (state_after (deposit k x s)) k = Some (a\<lparr>balance := js_add (balance a) x\<rparr>)"
    by (simp add: acc)
  have ok: "\<not> js_gt x (balance (a\<lparr>balance := js_add (balance a) x\<rparr>))"
    using js_add_ge[OF nn(1) assms(3) pos] by simp
  show "thrown (withdraw k x (state_after (deposit k x s))) = None"
    using withdraw_returns_I(1)[OF a1 pos ok] .
  show "bal (state_after (withdraw k x (state_after (deposit k x s)))) k = bal s k"
    if "exact (DepositCommand k x) s"
  proof -
    from that a have "exact_sum (balance a) x" by simp
    then have "js_sub (js_add (balance a) x) x = balance a"
      using nn(2) by (rule exact_sum_undo)
    then show ?thesis
      using withdraw_returns_I(2)[OF a1 pos ok] a by (simp add: bal_def)
  qed
qed

lemma undo_withdraw_after_execute:
  assumes "thrown (withdraw k x s) = None" and "nonneg s k"
  shows "thrown (deposit k x (state_after (withdraw k x s))) = None"
    and "exact (WithdrawCommand k x) s \<Longrightarrow>
           bal (state_after (deposit k x (state_after (withdraw k x s)))) k = bal s k"
proof -
  from withdraw_returns_D[OF assms(1)] obtain a where
    a: "accounts s k = Some a" and pos: "\<not> js_le x (Fin 0)"
    and acc: "accounts (state_after (withdraw k x s)) = (accounts s)(k \<mapsto> a\<lparr>balance := js_sub (balance a) x\<rparr>)"
    by blast
  have nn: "is_number (balance a)"
    using assms(2) a by (simp add: nonneg_def)
  have a1: "accounts (state_after (withdraw k x s)) k = Some (a\<lparr>balance := js_sub (balance a) x\<rparr>)"
    by (simp add: acc)
  show "thrown (deposit k x (state_after (withdraw k x s))) = None"
    using deposit_returns_I(1)[OF a1 pos] .
  show "bal (state_after (deposit k x (state_after (withdraw k x s)))) k = bal s k"
    if "exact (WithdrawCommand k x) s"
  proof -
    from that a have "exact_diff (balance a) x" by simp
    then have "js_add (js_sub (balance a) x) x = balance a"
      using nn by (rule exact_diff_undo)
    then show ?thesis
      using deposit_returns_I(2)[OF a1 pos] a by (simp add: bal_def)
  qed
qed

lemma undo_transfer_after_execute:
  assumes "thrown (transferTo i j x s) = None" and "nonneg s i" and "nonneg s j" and "is_number x"
  shows "thrown (undo (TransferCommand i j x) (state_after (transferTo i j x s))) = None"
    and "exact (TransferCommand i j x) s \<Longrightarrow>
           bal (state_after (undo (TransferCommand i j x) (state_after (transferTo i j x s)))) i = bal s i \<and>
           bal (state_after (undo (TransferCommand i j x) (state_after (transferTo i j x s)))) j = bal s j"
proof -
  define s1 where "s1 = state_after (transferTo i j x s)"
  from transferTo_returns_D[OF assms(1)] obtain a b where
    a: "accounts s i = Some a" and b: "accounts s j = Some b" and ne: "i \<noteq> j"
    and pos: "\<not> js_le x (Fin 0)"
    and acc: "accounts s1 = (accounts s)(i \<mapsto> a\<lparr>balance := js_sub (balance a) x\<rparr>,
                                          j \<mapsto> b\<lparr>balance := js_add (balance b) x\<rparr>)"
    unfolding s1_def by blast
  have nn: "is_number (balance a)" "js_le (Fin 0) (balance b)" "is_number (balance b)"
    using assms(2,3) a b by (simp_all add: nonneg_def)
  have b1: "accounts s1 j = Some (b\<lparr>balance := js_add (balance b) x\<rparr>)"
    by (simp add: acc)
  have ok: "\<not> js_gt x (balance (b\<lparr>balance := js_add (balance b) x\<rparr>))"
    using js_add_ge[OF nn(2) assms(4) pos] by simp
  have w: "thrown (withdraw j x s1) = None"
    using withdraw_returns_I(1)[OF b1 pos ok] .
  define s2 where "s2 = state_after (withdraw j x s1)"
  have acc2: "accounts s2 = (accounts s1)(j \<mapsto> b\<lparr>balance := js_sub (js_add (balance b) x) x\<rparr>)"
    unfolding s2_def using withdraw_returns_I(2)[OF b1 pos ok] by simp
  have a2: "accounts s2 i = Some (a\<lparr>balance := js_sub (balance a) x\<rparr>)"
    using ne by (simp add: acc2 acc)
  have d: "thrown (deposit i x s2) = None"
    using deposit_returns_I(1)[OF a2 pos] .
  have acc3: "accounts (state_after (deposit i x s2)) =
                (accounts s2)(i \<mapsto> a\<lparr>balance := js_add (js_sub (balance a) x) x\<rparr>)"
    using deposit_returns_I(2)[OF a2 pos] by simp
  show "thrown (undo (TransferCommand i j x) (state_after (transferTo i j x s))) = None"
    using undo_transfer_cases(1)[OF w, of i] d by (simp add: s1_def s2_def)
  show "bal (state_after (undo (TransferCommand i j x) (state_after (transferTo i j x s)))) i = bal s i \<and>
        bal (state_after (undo (TransferCommand i j x) (state_after (transferTo i j x s)))) j = bal s j"
    if "exact (TransferCommand i j x) s"
  proof -
    from that a b have "exact_diff (balance a) x" and "exact_sum (balance b) x" by simp_all
    then have "js_add (js_sub (balance a) x) x = balance a" and "js_sub (js_add (balance b) x) x = balance b"
      using nn by (simp_all add: exact_diff_undo exact_sum_undo)
    moreover have "accounts (state_after (undo (TransferCommand i j x) s1)) =
                     accounts (state_after (deposit i x s2))"
      using undo_transfer_cases(2)[OF w, of i] by (simp add: s2_def)
    ultimately show ?thesis
      using a b ne by (simp add: bal_def acc3 acc2 s1_def[symmetric])
  qed
qed

lemma tenth_account:
  "accounts tenth 1001 =
     Some \<lparr>acc_id = 1001, owner = ''Mira'', acc_type = ''savings'',
           balance = Fin (3602879701896397 / 36028797018963968),
           observers = [\<lparr>obs_name = ''Mira'', obs_email = ''mira@demo.bank''\<rparr>],
           subscribers = []\<rparr>"
  by (simp add: tenth_def page_eval fl_eval)

lemma fifth_literal: "fl (1 / 5) = Fin (3602879701896397 / 18014398509481984)"
  by (simp add: fl_eval)

section \<open>No balance falls below zero, unless an account is opened below zero\<close>

text \<open>
  Every handler keeps \<open>never_negative\<close>, except \<^verbatim>\<open>create-acct\<close> when the opening balance
  read from the form is negative.
\<close>

lemma js_le_not_lt: "js_le x y \<Longrightarrow> \<not> js_lt y x"
  by (cases x; cases y) simp_all

lemma js_add_not_negative:
  assumes "\<not> js_lt b (Fin 0)" and "\<not> js_le x (Fin 0)"
  shows "\<not> js_lt (js_add b x) (Fin 0)"
proof (cases b)
  case (Fin y)
  show ?thesis
  proof (cases x)
    case (Fin z)
    have "js_le (Fin 0) (fl (y + z))"
      using assms \<open>b = Fin y\<close> Fin by (intro fl_nonneg) simp
    then show ?thesis using \<open>b = Fin y\<close> Fin by (simp add: js_le_not_lt)
  qed (use assms Fin in simp_all)
qed (use assms in \<open>cases x; simp\<close>)+

lemma js_sub_not_negative:
  assumes "\<not> js_lt b (Fin 0)" and "\<not> js_le x (Fin 0)" and "\<not> js_gt x b"
  shows "\<not> js_lt (js_sub b x) (Fin 0)"
proof (cases b)
  case (Fin y)
  show ?thesis
  proof (cases x)
    case (Fin z)
    have "js_le (Fin 0) (fl (y - z))"
      using assms \<open>b = Fin y\<close> Fin by (intro fl_nonneg) (simp add: js_gt_def)
    then show ?thesis using \<open>b = Fin y\<close> Fin by (simp add: js_le_not_lt)
  qed (use assms Fin in \<open>simp_all add: js_gt_def\<close>)
qed (use assms in \<open>cases x; simp add: js_gt_def\<close>)+

lemma js_mul_rate_not_negative:
  assumes "\<not> js_lt b (Fin 0)" and "0 < r"
  shows "\<not> js_lt (js_add b (js_mul b (Fin r))) (Fin 0)"
proof (cases b)
  case (Fin y)
  then have y: "0 \<le> y" using assms by simp
  have m: "js_le (Fin 0) (fl (y * r))"
    using y assms(2) by (intro fl_nonneg) simp
  show ?thesis
  proof (cases "fl (y * r)")
    case (Fin m')
    then have "js_le (Fin 0) (fl (y + m'))"
      using m y by (intro fl_nonneg) simp
    then show ?thesis using \<open>b = Fin y\<close> Fin by (simp add: js_le_not_lt)
  qed (use m \<open>b = Fin y\<close> in simp_all)
qed (use assms in simp_all)

lemma interest_not_negative:
  assumes "\<not> js_lt b (Fin 0)"
  shows "\<not> js_lt (js_add b (calculate strat b)) (Fin 0)"
proof (cases strat)
  case InterestStrategy
  have "js_le (Fin 0) (fl y)" if "0 \<le> y" for y using that by (rule fl_nonneg)
  then show ?thesis using assms InterestStrategy
    by (cases b) (simp_all add: js_le_not_lt)
qed (use assms js_mul_rate_not_negative in \<open>simp_all add: interest_literals\<close>)

lemma never_negative_iff:
  "never_negative s \<longleftrightarrow> (\<forall>k a. accounts s k = Some a \<longrightarrow> \<not> js_lt (balance a) (Fin 0))"
  by (auto simp add: never_negative_def ran_def)

lemma never_negative_cong: "accounts s' = accounts s \<Longrightarrow> never_negative s' = never_negative s"
  by (simp add: never_negative_iff)

lemma never_negative_upd:
  assumes "never_negative s" and "accounts s' = (accounts s)(k \<mapsto> a)"
    and "\<not> js_lt (balance a) (Fin 0)"
  shows "never_negative s'"
  using assms by (auto simp add: never_negative_iff)

lemma never_negative_upd2:
  assumes "never_negative s" and "accounts s' = (accounts s)(i \<mapsto> a, j \<mapsto> b)"
    and "\<not> js_lt (balance a) (Fin 0)" and "\<not> js_lt (balance b) (Fin 0)"
  shows "never_negative s'"
  using assms by (auto simp add: never_negative_iff)

lemma never_negative_deposit:
  assumes "never_negative s"
  shows "never_negative (state_after (deposit k x s))"
proof (cases "thrown (deposit k x s)")
  case None
  from deposit_returns_D[OF None] obtain a where
    a: "accounts s k = Some a" and pos: "\<not> js_le x (Fin 0)"
    and acc: "accounts (state_after (deposit k x s)) = (accounts s)(k \<mapsto> a\<lparr>balance := js_add (balance a) x\<rparr>)"
    by blast
  have "\<not> js_lt (balance a) (Fin 0)" using assms a by (simp add: never_negative_iff)
  then have "\<not> js_lt (balance (a\<lparr>balance := js_add (balance a) x\<rparr>)) (Fin 0)"
    using js_add_not_negative[OF _ pos] by simp
  with assms acc show ?thesis by (rule never_negative_upd)
next
  case (Some e)
  then show ?thesis using assms by (simp add: deposit_thrown_state)
qed

lemma never_negative_withdraw:
  assumes "never_negative s"
  shows "never_negative (state_after (withdraw k x s))"
proof (cases "thrown (withdraw k x s)")
  case None
  from withdraw_returns_D[OF None] obtain a where
    a: "accounts s k = Some a" and pos: "\<not> js_le x (Fin 0)" and le: "\<not> js_gt x (balance a)"
    and acc: "accounts (state_after (withdraw k x s)) = (accounts s)(k \<mapsto> a\<lparr>balance := js_sub (balance a) x\<rparr>)"
    by blast
  have "\<not> js_lt (balance a) (Fin 0)" using assms a by (simp add: never_negative_iff)
  then have "\<not> js_lt (balance (a\<lparr>balance := js_sub (balance a) x\<rparr>)) (Fin 0)"
    using js_sub_not_negative[OF _ pos le] by simp
  with assms acc show ?thesis by (rule never_negative_upd)
next
  case (Some e)
  then show ?thesis using assms by (simp add: withdraw_thrown_state)
qed

lemma never_negative_transferTo:
  assumes "never_negative s"
  shows "never_negative (state_after (transferTo i j x s))"
proof (cases "thrown (transferTo i j x s)")
  case None
  from transferTo_returns_D[OF None] obtain a b where
    a: "accounts s i = Some a" and b: "accounts s j = Some b"
    and pos: "\<not> js_le x (Fin 0)" and le: "\<not> js_gt x (balance a)"
    and acc: "accounts (state_after (transferTo i j x s)) =
             (accounts s)(i \<mapsto> a\<lparr>balance := js_sub (balance a) x\<rparr>,
                          j \<mapsto> b\<lparr>balance := js_add (balance b) x\<rparr>)"
    by blast
  have "\<not> js_lt (balance a) (Fin 0)" "\<not> js_lt (balance b) (Fin 0)"
    using assms a b by (simp_all add: never_negative_iff)
  then have "\<not> js_lt (balance (a\<lparr>balance := js_sub (balance a) x\<rparr>)) (Fin 0)"
    and "\<not> js_lt (balance (b\<lparr>balance := js_add (balance b) x\<rparr>)) (Fin 0)"
    using js_sub_not_negative[OF _ pos le] js_add_not_negative[OF _ pos] by simp_all
  with assms acc show ?thesis by (rule never_negative_upd2)
next
  case (Some e)
  then show ?thesis using assms by (simp add: transferTo_thrown_state)
qed

lemma never_negative_execute:
  "never_negative s \<Longrightarrow> never_negative (state_after (execute cmd s))"
  by (cases cmd) (simp_all add: never_negative_deposit never_negative_withdraw never_negative_transferTo)

lemma undo_transfer_thrown:
  assumes "thrown (withdraw j x s) \<noteq> None"
  shows "state_after (undo (TransferCommand i j x) s) = s"
proof -
  from assms obtain e s' where "withdraw j x s = Inl (e, s')"
    by (cases "withdraw j x s") auto
  moreover from this have "s' = s" using withdraw_thrown_state[of j x s] by simp
  ultimately show ?thesis by simp
qed

lemma never_negative_undo:
  assumes "never_negative s"
  shows "never_negative (state_after (undo cmd s))"
proof (cases cmd)
  case (DepositCommand k x)
  then show ?thesis
    using never_negative_withdraw[OF assms, of k x] never_negative_cong[OF undo_deposit_cases(2)[of k x s]]
    by simp
next
  case (WithdrawCommand k x)
  then show ?thesis
    using never_negative_deposit[OF assms, of k x] never_negative_cong[OF undo_withdraw_cases(2)[of k x s]]
    by simp
next
  case (TransferCommand i j x)
  show ?thesis
  proof (cases "thrown (withdraw j x s)")
    case None
    have "never_negative (state_after (deposit i x (state_after (withdraw j x s))))"
      by (intro never_negative_deposit never_negative_withdraw assms)
    then show ?thesis
      using never_negative_cong[OF undo_transfer_cases(2)[OF None, of i]] TransferCommand by simp
  next
    case (Some e)
    then show ?thesis using undo_transfer_thrown[of j x s i] assms TransferCommand by simp
  qed
qed

lemma accounts_executeCommand:
  "accounts (executeCommand cmd s) = accounts (state_after (execute cmd s))"
  by (cases "thrown (execute cmd s)") (simp_all add: executeCommand_cases logCommand_def)

lemma never_negative_executeCommand:
  "never_negative s \<Longrightarrow> never_negative (executeCommand cmd s)"
  using never_negative_execute[of s cmd] never_negative_cong[OF accounts_executeCommand[of cmd s]]
  by simp

lemma never_negative_cmd_undo:
  assumes "never_negative s"
  shows "never_negative (cmd_undo s)"
proof (cases "commandStack s = []")
  case True
  then show ?thesis using assms by (simp add: cmd_undo_cases)
next
  case False
  let ?s0 = "s\<lparr>commandStack := butlast (commandStack s)\<rparr>"
  have "never_negative ?s0" using assms never_negative_cong[of ?s0 s] by simp
  then have u: "never_negative (state_after (undo (last (commandStack s)) ?s0))"
    by (rule never_negative_undo)
  have "accounts (cmd_undo s) = accounts (state_after (undo (last (commandStack s)) ?s0))"
    using False
    by (cases "thrown (undo (last (commandStack s)) ?s0)") (simp_all add: cmd_undo_cases)
  from never_negative_cong[OF this] u show ?thesis by simp
qed

lemma never_negative_apply_interest:
  assumes "never_negative s"
  shows "never_negative (apply_interest i s)"
proof (cases i)
  case None
  then show ?thesis using assms by (simp add: apply_interest_def)
next
  case (Some k)
  show ?thesis
  proof (cases "no_id i \<or> accounts s k = None")
    case True
    then show ?thesis using assms Some by (auto simp add: apply_interest_def)
  next
    case False
    then obtain a where a: "accounts s k = Some a" and k: "\<not> no_id (Some k)"
      using Some by auto
    let ?a = "a\<lparr>balance := js_add (balance a) (calculate (select_strategy (acc_type a)) (balance a))\<rparr>"
    have acc: "accounts (apply_interest i s) = (accounts s)(k \<mapsto> ?a)"
      using a k Some by (simp add: apply_interest_def applyInterest_cases)
    have "\<not> js_lt (balance a) (Fin 0)" using assms a by (simp add: never_negative_iff)
    then have "\<not> js_lt (balance ?a) (Fin 0)"
      using interest_not_negative by simp
    with assms acc show ?thesis by (rule never_negative_upd)
  qed
qed

lemma never_negative_attach:
  "never_negative s \<Longrightarrow> never_negative (attach k obs s)"
  by (auto simp add: attach_def never_negative_iff split: option.splits)

lemma never_negative_detach:
  "never_negative s \<Longrightarrow> never_negative (detach k email s)"
  by (auto simp add: detach_def never_negative_iff split: option.splits)

lemma never_negative_addNotification [simp]:
  "never_negative (addNotification t m s) = never_negative s"
  by (simp add: never_negative_iff)

lemma never_negative_create_acct:
  assumes "never_negative s" and "\<not> js_lt parsed (Fin 0)"
  shows "never_negative (create_acct name owner_email type parsed s)"
proof (cases "name = []")
  case True
  then show ?thesis using assms by (simp add: create_acct_def Let_def)
next
  case False
  let ?bal = "if js_not parsed then Fin 0 else parsed"
  let ?acct = "new_Account (nextAcctId s) name type ?bal"
  let ?s1 = "s\<lparr>nextAcctId := nextAcctId s + 1, accounts := (accounts s)(acc_id ?acct \<mapsto> ?acct)\<rparr>"
  have "\<not> js_lt (balance ?acct) (Fin 0)"
    using assms(2) by (simp add: new_Account_def)
  then have "never_negative ?s1"
    using assms(1) by (intro never_negative_upd[of s ?s1 "acc_id ?acct" ?acct]) simp_all
  then show ?thesis
    using False by (simp add: create_acct_def Let_def never_negative_attach)
qed

lemma never_negative_demo_account:
  assumes "never_negative s" and "0 \<le> b"
  shows "never_negative (demo_account n email t b s)"
  using assms by (auto simp add: demo_account_def Let_def new_Account_def never_negative_iff)

lemma never_negative_handle:
  assumes "never_negative s" and "\<not> opens_negative ev"
  shows "never_negative (handle ev s)"
proof (cases ev)
  case (CreateAcct n e t b)
  then show ?thesis using assms by (simp add: never_negative_create_acct)
next
  case (CmdDeposit i x)
  then show ?thesis using assms
    by (simp add: cmd_deposit_def never_negative_executeCommand split: option.splits)
next
  case (CmdWithdraw i x)
  then show ?thesis using assms
    by (simp add: cmd_withdraw_def never_negative_executeCommand split: option.splits)
next
  case (CmdTransfer i j x)
  then show ?thesis using assms
    by (simp add: cmd_transfer_def never_negative_executeCommand split: option.splits)
next
  case CmdUndo
  then show ?thesis using assms by (simp add: never_negative_cmd_undo)
next
  case (ApplyInterest i)
  then show ?thesis using assms by (simp add: never_negative_apply_interest)
next
  case DemoSetup
  then show ?thesis using assms by (simp add: demo_setup_def never_negative_demo_account)
next
  case ClearAll
  then show ?thesis by (simp add: clear_all_def init_def never_negative_def)
next
  case (Subscribe k e)
  then show ?thesis using assms by (simp add: subscribe_def Let_def never_negative_attach)
next
  case (Unsubscribe k e)
  then show ?thesis using assms by (simp add: never_negative_detach)
qed

lemma never_negative_run:
  assumes "never_negative s" and "\<forall>ev \<in> set evs. \<not> opens_negative ev"
  shows "never_negative (run evs s)"
  using assms unfolding run_def
  by (induction evs arbitrary: s) (simp_all add: never_negative_handle)

lemma never_negative_init: "never_negative init"
  by (simp add: init_def never_negative_def)

text \<open>
  What \<^verbatim>\<open>cmd-undo\<close> does: nothing on an empty stack; otherwise it pops the top and runs that
  command's \<^verbatim>\<open>undo()\<close>, whether or not it throws. A command that has just executed is the top.
\<close>

lemma cmd_undo_pops_top:
  "(commandStack s = [] \<longrightarrow> cmd_undo s = s) \<and>
   (commandStack s \<noteq> [] \<longrightarrow>
      commandStack (cmd_undo s) = butlast (commandStack s) \<and>
      accounts (cmd_undo s) =
        accounts (state_after (undo (last (commandStack s))
                    (s\<lparr>commandStack := butlast (commandStack s)\<rparr>)))) \<and>
   (thrown (execute cmd s) = None \<longrightarrow>
      last (commandStack (executeCommand cmd s)) = cmd \<and>
      butlast (commandStack (executeCommand cmd s)) = commandStack s)"
proof -
  have A: "commandStack s = [] \<longrightarrow> cmd_undo s = s"
    by (simp add: cmd_undo_cases)
  have B: "commandStack s \<noteq> [] \<longrightarrow>
      commandStack (cmd_undo s) = butlast (commandStack s) \<and>
      accounts (cmd_undo s) =
        accounts (state_after (undo (last (commandStack s))
                    (s\<lparr>commandStack := butlast (commandStack s)\<rparr>)))"
    by (cases "thrown (undo (last (commandStack s)) (s\<lparr>commandStack := butlast (commandStack s)\<rparr>))")
       (simp_all add: cmd_undo_cases)
  have C: "thrown (execute cmd s) = None \<longrightarrow>
      last (commandStack (executeCommand cmd s)) = cmd \<and>
      butlast (commandStack (executeCommand cmd s)) = commandStack s"
    by (simp add: executeCommand_cases logCommand_def)
  from A B C show ?thesis by blast
qed

text \<open>On the demo page: undo with nothing to undo, and undo after Bob's deposit of 50.\<close>

lemma cmd_undo_pops_top_demo:
  "commandStack demo = [] \<and> cmd_undo demo = demo \<and>
   commandStack (executeCommand (DepositCommand 1002 (Fin 50)) demo) = [DepositCommand 1002 (Fin 50)] \<and>
   bal (executeCommand (DepositCommand 1002 (Fin 50)) demo) 1002 = Some (Fin 1250) \<and>
   commandStack (cmd_undo (executeCommand (DepositCommand 1002 (Fin 50)) demo)) = [] \<and>
   bal (cmd_undo (executeCommand (DepositCommand 1002 (Fin 50)) demo)) 1002 = Some (Fin 1200)"
proof -
  let ?c = "DepositCommand 1002 (Fin 50)"
  let ?b = "\<lparr>acc_id = 1002, owner = ''Bob'', acc_type = ''current'', balance = Fin 1200,
           observers = [\<lparr>obs_name = ''Bob'', obs_email = ''bob@demo.bank''\<rparr>],
           subscribers = []\<rparr>"
  have ar: "js_add (Fin 1200) (Fin 50) = Fin 1250" "js_sub (Fin 1250) (Fin 50) = Fin 1200"
    by (simp_all add: fl_eval)
  have pos: "\<not> js_le (Fin 50) (Fin 0)" by simp
  have e: "thrown (execute ?c demo) = None"
    using deposit_returns_I(1)[OF demo_accounts(2) pos] by simp
  have st: "commandStack (executeCommand ?c demo) = [?c]"
    using e demo_stack by (simp add: executeCommand_cases logCommand_def del: execute.simps)
  have acc1: "accounts (executeCommand ?c demo) 1002 = Some (?b\<lparr>balance := Fin 1250\<rparr>)"
    using e deposit_returns_I(2)[OF demo_accounts(2) pos] ar
    by (simp add: executeCommand_cases logCommand_def)
  have acc1': "accounts ((executeCommand ?c demo)\<lparr>commandStack := []\<rparr>) 1002 = Some (?b\<lparr>balance := Fin 1250\<rparr>)"
    using acc1 by simp
  have ok: "\<not> js_gt (Fin 50) (balance (?b\<lparr>balance := Fin 1250\<rparr>))"
    by (simp add: js_gt_def)
  have u: "bal (state_after (undo ?c ((executeCommand ?c demo)\<lparr>commandStack := []\<rparr>))) 1002 = Some (Fin 1200)"
    using withdraw_returns_I(2)[OF acc1' pos ok] ar
    by (simp add: undo_deposit_cases bal_def del: undo.simps)
  show ?thesis
    using cmd_undo_pops_top[of demo ?c] cmd_undo_pops_top[of "executeCommand ?c demo" ?c] demo_stack st acc1 u
    by (simp add: bal_def del: undo.simps execute.simps)
qed

text \<open>The page \<open>large\<close>, and the page \<open>three_deposits\<close> before and after three clicks on undo.\<close>

lemma large_account:
  "accounts large 1001 =
     Some \<lparr>acc_id = 1001, owner = ''Mira'', acc_type = ''savings'', balance = Fin 18014398509481984,
           observers = [\<lparr>obs_name = ''Mira'', obs_email = ''mira@demo.bank''\<rparr>],
           subscribers = []\<rparr>"
  by (simp add: large_def page_eval Let_def)

lemma three_deposits_state:
  "accounts three_deposits 1001 =
     Some \<lparr>acc_id = 1001, owner = ''Bea'', acc_type = ''savings'', balance = Fin 150,
           observers = [\<lparr>obs_name = ''Bea'', obs_email = ''bea@demo.bank''\<rparr>],
           subscribers = []\<rparr>"
  "accounts three_deposits 1002 =
     Some \<lparr>acc_id = 1002, owner = ''Zed'', acc_type = ''savings'',
           balance = Fin (7205759403792793 / 9007199254740992),
           observers = [\<lparr>obs_name = ''Zed'', obs_email = ''zed@demo.bank''\<rparr>],
           subscribers = []\<rparr>"
  "commandStack three_deposits =
     [DepositCommand 1001 (Fin 50),
      DepositCommand 1002 (Fin (3602879701896397 / 36028797018963968)),
      DepositCommand 1002 (Fin (3152519739159347 / 4503599627370496))]"
  by (simp_all add: three_deposits_def run_def page_eval Let_def cmd_deposit_def no_id_def
      executeCommand_def deposit_def logCommand_def notify_def fl_eval)

lemma first_undo_state:
  "accounts (cmd_undo three_deposits) 1001 = accounts three_deposits 1001"
  "accounts (cmd_undo three_deposits) 1002 =
     Some \<lparr>acc_id = 1002, owner = ''Zed'', acc_type = ''savings'',
           balance = Fin (900719925474099 / 9007199254740992),
           observers = [\<lparr>obs_name = ''Zed'', obs_email = ''zed@demo.bank''\<rparr>],
           subscribers = []\<rparr>"
  "commandStack (cmd_undo three_deposits) =
     [DepositCommand 1001 (Fin 50),
      DepositCommand 1002 (Fin (3602879701896397 / 36028797018963968))]"
  by (simp_all add: cmd_undo_def Let_def three_deposits_state withdraw_def js_gt_def notify_def
      addNotification_def fl_eval)

lemma second_undo_state:
  "accounts (cmd_undo (cmd_undo three_deposits)) 1001 = accounts three_deposits 1001"
  "accounts (cmd_undo (cmd_undo three_deposits)) 1002 = accounts (cmd_undo three_deposits) 1002"
  "commandStack (cmd_undo (cmd_undo three_deposits)) = [DepositCommand 1001 (Fin 50)]"
  "hd (feed (cmd_undo (cmd_undo three_deposits))) =
     (Title ''Undo Error'', ErrorMessage (Error ''Insufficient funds''))"
  by (simp_all add: cmd_undo_def[of "cmd_undo three_deposits"] Let_def first_undo_state withdraw_def js_gt_def
      addNotification_def)

lemma third_undo_state:
  "accounts (cmd_undo (cmd_undo (cmd_undo three_deposits))) 1001 =
     Some \<lparr>acc_id = 1001, owner = ''Bea'', acc_type = ''savings'', balance = Fin 100,
           observers = [\<lparr>obs_name = ''Bea'', obs_email = ''bea@demo.bank''\<rparr>],
           subscribers = []\<rparr>"
  "accounts (cmd_undo (cmd_undo (cmd_undo three_deposits))) 1002 = accounts (cmd_undo three_deposits) 1002"
  "commandStack (cmd_undo (cmd_undo (cmd_undo three_deposits))) = []"
  by (simp_all add: cmd_undo_def[of "cmd_undo (cmd_undo three_deposits)"] Let_def second_undo_state
      three_deposits_state withdraw_def js_gt_def notify_def addNotification_def fl_eval)

text \<open>The page \<open>overdrawn\<close> is reached by one click and is not \<open>never_negative\<close>.\<close>

lemma overdrawn_account:
  "accounts overdrawn 1001 =
     Some \<lparr>acc_id = 1001, owner = ''Mira'', acc_type = ''savings'', balance = Fin (- 100),
           observers = [\<lparr>obs_name = ''Mira'', obs_email = ''mira@demo.bank''\<rparr>],
           subscribers = []\<rparr>"
  by (simp add: overdrawn_def page_eval Let_def)

lemma overdrawn_not_never_negative: "\<not> never_negative overdrawn"
proof
  assume "never_negative overdrawn"
  from never_negative_iff[THEN iffD1, rule_format, OF this overdrawn_account]
  show False by simp
qed

section \<open>The properties\<close>

text \<open>
  Balances and amounts are Numbers, and the program's \<^verbatim>\<open>+\<close>, \<^verbatim>\<open>-\<close> and \<^verbatim>\<open>*\<close> round. Where a
  claim speaks of a change by exactly an amount, the new balance is compared with the
  real sum or difference (\<open>real_add\<close>, \<open>real_sub\<close>).
\<close>

subsection \<open>C1\<close>

text \<open>
  C1 says that no sequence of public operations makes a balance negative. Account
  creation is one of them, and it breaks the claim: \<^verbatim>\<open>create-acct\<close> takes the opening balance
  from \<^verbatim>\<open>parseFloat\<close> and the constructor stores it unchecked, so the text \<^verbatim>\<open>-100\<close> in the balance
  field opens account 1001 with the balance \<open>-100\<close>. (\<^verbatim>\<open>withdraw\<close> does guard the balance, with
  "Insufficient funds".) The theorem evaluates the handler at that input.
\<close>

theorem c1_negative_opening_balance:
  "is_number (Fin (- 100)) \<and>
   run [CreateAcct ''Mira'' ''mira@demo.bank'' ''savings'' (Fin (- 100))] init = overdrawn \<and>
   bal overdrawn 1001 = Some (Fin (- 100)) \<and>
   js_lt (Fin (- 100)) (Fin 0)"
proof -
  have n: "is_number (Fin (- 100))"
    by (simp add: is_double_def fl_eval)
  have r: "run [CreateAcct ''Mira'' ''mira@demo.bank'' ''savings'' (Fin (- 100))] init = overdrawn"
    by (simp add: run_def overdrawn_def)
  have b: "bal overdrawn 1001 = Some (Fin (- 100))"
    by (simp add: bal_def overdrawn_account)
  from n r b show ?thesis by simp
qed

subsection \<open>C2\<close>

text \<open>
  C2 as stated fails. In the page \<open>tenth\<close> the only account holds 0.1. The command
  \<^verbatim>\<open>new DepositCommand(account, 0.2)\<close> executes (the balance becomes 0.30000000000000004), its
  \<^verbatim>\<open>undo()\<close> returns too, and the balance is then 0.10000000000000003, not the 0.1 it was
  before \<^verbatim>\<open>execute()\<close>: \<^verbatim>\<open>0.1 + 0.2 - 0.2\<close> is not \<^verbatim>\<open>0.1\<close> in Number arithmetic. (The fractions
  below are these binary64 values.)
\<close>

theorem c2_undo_rounding_counterexample:
  "nonneg tenth 1001 \<and> is_number (fl (2 / 10)) \<and>
   thrown (execute (DepositCommand 1001 (fl (2 / 10))) tenth) = None \<and>
   thrown (undo (DepositCommand 1001 (fl (2 / 10)))
             (state_after (execute (DepositCommand 1001 (fl (2 / 10))) tenth))) = None \<and>
   bal tenth 1001 = Some (Fin (3602879701896397 / 36028797018963968)) \<and>
   bal (state_after (undo (DepositCommand 1001 (fl (2 / 10)))
          (state_after (execute (DepositCommand 1001 (fl (2 / 10))) tenth)))) 1001
     = Some (Fin (1801439850948199 / 18014398509481984)) \<and>
   bal (state_after (undo (DepositCommand 1001 (fl (2 / 10)))
          (state_after (execute (DepositCommand 1001 (fl (2 / 10))) tenth)))) 1001
     \<noteq> bal tenth 1001"
proof -
  let ?x = "Fin (3602879701896397 / 18014398509481984)"
  let ?a = "\<lparr>acc_id = 1001, owner = ''Mira'', acc_type = ''savings'',
           balance = Fin (3602879701896397 / 36028797018963968),
           observers = [\<lparr>obs_name = ''Mira'', obs_email = ''mira@demo.bank''\<rparr>],
           subscribers = []\<rparr>"
  have dbl: "is_double (3602879701896397 / 36028797018963968)" "is_double (3602879701896397 / 18014398509481984)"
    by (simp_all add: is_double_def fl_eval)
  have nn: "nonneg tenth 1001"
    by (simp add: nonneg_def tenth_account dbl)
  have pos: "\<not> js_le ?x (Fin 0)" by simp
  have sum: "js_add (Fin (3602879701896397 / 36028797018963968)) ?x = Fin (1351079888211149 / 4503599627370496)"
    by (simp add: fl_eval)
  have diff: "js_sub (Fin (1351079888211149 / 4503599627370496)) ?x = Fin (1801439850948199 / 18014398509481984)"
    by (simp add: fl_eval)
  have e: "thrown (deposit 1001 ?x tenth) = None"
    using deposit_returns_I(1)[OF tenth_account pos] .
  have acc1: "accounts (state_after (deposit 1001 ?x tenth)) 1001 =
                Some (?a\<lparr>balance := Fin (1351079888211149 / 4503599627370496)\<rparr>)"
    using deposit_returns_I(2)[OF tenth_account pos] sum by simp
  have ok: "\<not> js_gt ?x (balance (?a\<lparr>balance := Fin (1351079888211149 / 4503599627370496)\<rparr>))"
    by (simp add: js_gt_def)
  have u: "thrown (withdraw 1001 ?x (state_after (deposit 1001 ?x tenth))) = None"
    using withdraw_returns_I(1)[OF acc1 pos ok] .
  have acc2: "bal (state_after (undo (DepositCommand 1001 ?x) (state_after (deposit 1001 ?x tenth)))) 1001 =
                Some (Fin (1801439850948199 / 18014398509481984))"
    using withdraw_returns_I(2)[OF acc1 pos ok] diff
    by (simp add: bal_def undo_deposit_cases del: undo.simps)
  have b0: "bal tenth 1001 = Some (Fin (3602879701896397 / 36028797018963968))"
    by (simp add: bal_def tenth_account)
  show ?thesis
    using nn dbl e u acc2 b0
    by (simp add: fifth_literal undo_deposit_cases del: undo.simps)
qed

text \<open>
  C2, amended. For every command whose \<^verbatim>\<open>execute()\<close> returns on accounts whose balances are
  Numbers \<open>\<ge> 0\<close> (the amount a Number too), \<^verbatim>\<open>undo()\<close> called immediately afterwards returns;
  and it restores the balance of every involved account to its value before \<^verbatim>\<open>execute()\<close>
  whenever the balance updates of \<^verbatim>\<open>execute()\<close> were exact (\<open>exact\<close>): balance and amount are
  finite, and each real sum \<^verbatim>\<open>balance + amount\<close> or difference \<^verbatim>\<open>balance - amount\<close> that
  \<^verbatim>\<open>execute()\<close> computes is a binary64 value.
\<close>

theorem c2_undo_after_execute:
  assumes "thrown (execute c s) = None"
      and "\<forall>r \<in> set (involved c). nonneg s r"
      and "is_number (amount_of c)"
  shows "thrown (undo c (state_after (execute c s))) = None \<and>
         (exact c s \<longrightarrow>
            (\<forall>r \<in> set (involved c). bal (state_after (undo c (state_after (execute c s)))) r = bal s r))"
proof (cases c)
  case (DepositCommand k x)
  with assms have e: "thrown (deposit k x s) = None" and n: "nonneg s k" and x: "is_number x"
    by simp_all
  show ?thesis
    using undo_deposit_after_execute[OF e n x] DepositCommand
    by (simp add: undo_deposit_cases bal_def del: undo.simps)
next
  case (WithdrawCommand k x)
  with assms have e: "thrown (withdraw k x s) = None" and n: "nonneg s k"
    by simp_all
  show ?thesis
    using undo_withdraw_after_execute[OF e n] WithdrawCommand
    by (simp add: undo_withdraw_cases bal_def del: undo.simps)
next
  case (TransferCommand i j x)
  with assms have e: "thrown (transferTo i j x s) = None" and n: "nonneg s i" "nonneg s j"
    and x: "is_number x"
    by simp_all
  show ?thesis
    using undo_transfer_after_execute[OF e n x] TransferCommand
    by (simp del: undo.simps)
qed

text \<open>
  On the demo page, a transfer of 300 from Alice to Bob and its undo.
\<close>

theorem c2_undo_after_execute_witness:
  "thrown (execute (TransferCommand 1001 1002 (Fin 300)) demo) = None \<and>
   nonneg demo 1001 \<and> nonneg demo 1002 \<and> is_number (Fin 300) \<and>
   exact (TransferCommand 1001 1002 (Fin 300)) demo \<and>
   thrown (undo (TransferCommand 1001 1002 (Fin 300))
             (state_after (execute (TransferCommand 1001 1002 (Fin 300)) demo))) = None \<and>
   bal (state_after (undo (TransferCommand 1001 1002 (Fin 300))
          (state_after (execute (TransferCommand 1001 1002 (Fin 300)) demo)))) 1001 = Some (Fin 5000) \<and>
   bal (state_after (undo (TransferCommand 1001 1002 (Fin 300))
          (state_after (execute (TransferCommand 1001 1002 (Fin 300)) demo)))) 1002 = Some (Fin 1200)"
proof -
  have dbl: "is_double 5000" "is_double 1200" "is_double 300" "is_double 4700" "is_double 1500"
    by (simp_all add: is_double_def fl_eval)
  have nn: "\<forall>r \<in> set (involved (TransferCommand 1001 1002 (Fin 300))). nonneg demo r"
    by (simp add: nonneg_def demo_accounts dbl)
  have x: "is_number (amount_of (TransferCommand 1001 1002 (Fin 300)))"
    by (simp add: dbl)
  have e: "thrown (execute (TransferCommand 1001 1002 (Fin 300)) demo) = None"
    using demo_transfer(1) by simp
  have ex: "exact (TransferCommand 1001 1002 (Fin 300)) demo"
    by (simp add: demo_accounts dbl)
  have b: "bal demo 1001 = Some (Fin 5000)" "bal demo 1002 = Some (Fin 1200)"
    by (simp_all add: bal_def demo_accounts)
  show ?thesis
    using c2_undo_after_execute[OF e nn x] ex nn x e b
    by (simp del: undo.simps execute.simps)
qed

subsection \<open>C3\<close>

text \<open>
  C3. For two accounts with different ids and every amount, \<^verbatim>\<open>transferTo(target, amount)\<close> on
  the source throws exactly when \<^verbatim>\<open>withdraw(amount)\<close> on the source followed by
  \<^verbatim>\<open>deposit(amount)\<close> on the target throws (with the same exception), and it leaves all
  accounts, so both balances, as that sequence leaves them.
\<close>

theorem c3_transfer_is_withdraw_then_deposit:
  assumes "accounts s this = Some a" and "accounts s target = Some b" and "acc_id a \<noteq> acc_id b"
  shows "thrown (transferTo this target amount s) =
           thrown (withdraw_then_deposit this target amount s) \<and>
         accounts (state_after (transferTo this target amount s)) =
           accounts (state_after (withdraw_then_deposit this target amount s))"
proof (cases "js_le amount (Fin 0) \<or> js_gt amount (balance a)")
  case True
  with assms show ?thesis
    by (auto simp add: transferTo_cases withdraw_then_deposit_def withdraw_cases)
next
  case False
  have ne: "this \<noteq> target" using assms by auto
  from False have w: "thrown (withdraw this amount s) = None"
    using withdraw_returns_I(1)[OF assms(1), of amount] by simp
  then obtain s1 where s1: "withdraw this amount s = Inr s1"
    by (cases "withdraw this amount s") auto
  have tgt: "accounts s1 target = Some b"
    using withdraw_returns_I(2)[OF assms(1), of amount] False assms(2) ne s1 by simp
  have d: "thrown (deposit target amount s1) = None"
    using deposit_returns_I(1)[OF tgt, of amount] False by simp
  then obtain s2 where s2: "deposit target amount s1 = Inr s2"
    by (cases "deposit target amount s1") auto
  show ?thesis
    using assms False s1 s2 by (simp add: transferTo_cases withdraw_then_deposit_def)
qed

text \<open>
  On the demo page: 300 from Alice to Bob, and 9000, which Alice does not have.
\<close>

theorem c3_transfer_is_withdraw_then_deposit_witness:
  "thrown (withdraw_then_deposit 1001 1002 (Fin 300) demo) = None \<and>
   bal (state_after (withdraw_then_deposit 1001 1002 (Fin 300) demo)) 1001 = Some (Fin 4700) \<and>
   bal (state_after (withdraw_then_deposit 1001 1002 (Fin 300) demo)) 1002 = Some (Fin 1500) \<and>
   thrown (withdraw_then_deposit 1001 1002 (Fin 9000) demo) = Some (Error ''Insufficient funds'') \<and>
   thrown (transferTo 1001 1002 (Fin 9000) demo) = Some (Error ''Insufficient funds'')"
proof -
  have ids: "acc_id (the (accounts demo 1001)) \<noteq> acc_id (the (accounts demo 1002))"
    by (simp add: demo_accounts)
  have big: "thrown (transferTo 1001 1002 (Fin 9000) demo) = Some (Error ''Insufficient funds'')"
    by (simp add: transferTo_cases demo_accounts js_gt_def)
  show ?thesis
    using c3_transfer_is_withdraw_then_deposit[OF demo_accounts(1) demo_accounts(2), of "Fin 300"]
      c3_transfer_is_withdraw_then_deposit[OF demo_accounts(1) demo_accounts(2), of "Fin 9000"]
      demo_transfer big
    by (simp add: bal_def)
qed

subsection \<open>C4\<close>

text \<open>
  C4 as stated fails in its last part, "otherwise it decreases the balance by exactly
  amount". Alice holds 5000 on the demo page; \<^verbatim>\<open>withdraw(0.1)\<close> returns and leaves
  4999.9, which is not 5000 less the amount (the balance went down by 0.1000000000003638).
  On the page \<open>large\<close> the account holds 18014398509481984; \<^verbatim>\<open>withdraw(1)\<close> returns and
  leaves the balance as it was.
\<close>

theorem c4_withdraw_rounds_counterexample:
  "js_gt (fl (1 / 10)) (Fin 0) \<and> \<not> js_gt (fl (1 / 10)) (Fin 5000) \<and>
   thrown (withdraw 1001 (fl (1 / 10)) demo) = None \<and>
   bal demo 1001 = Some (Fin 5000) \<and>
   real_sub (Fin 5000) (fl (1 / 10)) = Fin (180140382215117943603 / 36028797018963968) \<and>
   bal (state_after (withdraw 1001 (fl (1 / 10)) demo)) 1001
     = Some (Fin (180140382215117930496 / 36028797018963968)) \<and>
   bal (state_after (withdraw 1001 (fl (1 / 10)) demo)) 1001
     \<noteq> Some (real_sub (Fin 5000) (fl (1 / 10))) \<and>
   js_gt (Fin 1) (Fin 0) \<and> \<not> js_gt (Fin 1) (Fin 18014398509481984) \<and>
   thrown (withdraw 1001 (Fin 1) large) = None \<and>
   bal large 1001 = Some (Fin 18014398509481984) \<and>
   bal (state_after (withdraw 1001 (Fin 1) large)) 1001 = Some (Fin 18014398509481984) \<and>
   bal (state_after (withdraw 1001 (Fin 1) large)) 1001
     \<noteq> Some (real_sub (Fin 18014398509481984) (Fin 1))"
proof -
  have pos: "\<not> js_le (Fin (3602879701896397 / 36028797018963968)) (Fin 0)" "\<not> js_le (Fin 1) (Fin 0)"
    by simp_all
  have le: "\<not> js_gt (Fin (3602879701896397 / 36028797018963968)) (balance (the (accounts demo 1001)))"
           "\<not> js_gt (Fin 1) (balance (the (accounts large 1001)))"
    by (simp_all add: js_gt_def demo_accounts large_account)
  have diff: "js_sub (Fin 5000) (Fin (3602879701896397 / 36028797018963968))
               = Fin (180140382215117930496 / 36028797018963968)"
            "js_sub (Fin 18014398509481984) (Fin 1) = Fin 18014398509481984"
    by (simp_all add: fl_eval)
  have t: "thrown (withdraw 1001 (Fin (3602879701896397 / 36028797018963968)) demo) = None"
          "bal (state_after (withdraw 1001 (Fin (3602879701896397 / 36028797018963968)) demo)) 1001
             = Some (Fin (180140382215117930496 / 36028797018963968))"
    using withdraw_returns_I[OF demo_accounts(1) pos(1)] le(1) diff(1)
    by (simp_all add: bal_def demo_accounts)
  have l: "thrown (withdraw 1001 (Fin 1) large) = None"
          "bal (state_after (withdraw 1001 (Fin 1) large)) 1001 = Some (Fin 18014398509481984)"
    using withdraw_returns_I[OF large_account pos(2)] le(2) diff(2)
    by (simp_all add: bal_def large_account)
  have b: "bal demo 1001 = Some (Fin 5000)" "bal large 1001 = Some (Fin 18014398509481984)"
    by (simp_all add: bal_def demo_accounts large_account)
  show ?thesis
    using t l b by (simp add: tenth_literal js_gt_def)
qed

text \<open>
  C4, amended. For every amount with \<^verbatim>\<open>amount > 0\<close>, \<^verbatim>\<open>withdraw(amount)\<close> throws "Insufficient funds"
  if and only if \<^verbatim>\<open>amount > balance\<close>; otherwise it returns and sets the balance to the Number
  that \<^verbatim>\<open>balance - amount\<close> evaluates to, and this is a decrease by exactly the amount whenever
  balance and amount are finite and their real difference is a binary64 value
  (\<open>exact_diff\<close>). Whenever \<^verbatim>\<open>withdraw\<close> throws, for any amount, the whole state, so the
  balance too, is as it was.
\<close>

theorem c4_withdraw:
  assumes "accounts s this = Some a" and "js_gt amount (Fin 0)"
  shows "(thrown (withdraw this amount s) = Some (Error ''Insufficient funds'')
            \<longleftrightarrow> js_gt amount (balance a)) \<and>
         (thrown (withdraw this amount s) = None \<longleftrightarrow> \<not> js_gt amount (balance a)) \<and>
         (\<not> js_gt amount (balance a) \<longrightarrow>
            bal (state_after (withdraw this amount s)) this = Some (js_sub (balance a) amount)) \<and>
         (\<not> js_gt amount (balance a) \<and> exact_diff (balance a) amount \<longrightarrow>
            bal (state_after (withdraw this amount s)) this = Some (real_sub (balance a) amount)) \<and>
         (\<forall>x. thrown (withdraw this x s) \<noteq> None \<longrightarrow> state_after (withdraw this x s) = s)"
  using assms
  by (auto simp add: withdraw_cases bal_def exact_diff_sub withdraw_thrown_state
      dest: js_gt_zero_not_le)

text \<open>
  Bob has 1200 on the demo page: he can withdraw 200 and cannot withdraw 2000.
\<close>

theorem c4_withdraw_witness:
  "js_gt (Fin 200) (Fin 0) \<and> \<not> js_gt (Fin 200) (Fin 1200) \<and> exact_diff (Fin 1200) (Fin 200) \<and>
   thrown (withdraw 1002 (Fin 200) demo) = None \<and>
   bal (state_after (withdraw 1002 (Fin 200) demo)) 1002 = Some (Fin 1000) \<and>
   js_gt (Fin 2000) (Fin 0) \<and> js_gt (Fin 2000) (Fin 1200) \<and>
   thrown (withdraw 1002 (Fin 2000) demo) = Some (Error ''Insufficient funds'') \<and>
   state_after (withdraw 1002 (Fin 2000) demo) = demo"
proof -
  have diff: "js_sub (Fin 1200) (Fin 200) = Fin 1000"
    by (simp add: fl_eval)
  have pos: "js_gt (Fin 200) (Fin 0)" "js_gt (Fin 2000) (Fin 0)"
    by (simp_all add: js_gt_def)
  show ?thesis
    using c4_withdraw[OF demo_accounts(2) pos(1)] c4_withdraw[OF demo_accounts(2) pos(2)] diff
    by (simp add: js_gt_def is_double_def)
qed

subsection \<open>C5\<close>

text \<open>
  C5 as stated fails in its first part, "increases the balance by exactly amount". On the
  page \<open>tenth\<close> the account holds 0.1; \<^verbatim>\<open>deposit(0.2)\<close> returns and leaves
  0.30000000000000004, which is not 0.1 plus the amount. On the page \<open>large\<close> the account
  holds 18014398509481984; \<^verbatim>\<open>deposit(1)\<close> returns and leaves the balance as it was.
\<close>

theorem c5_deposit_rounds_counterexample:
  "js_gt (fl (2 / 10)) (Fin 0) \<and>
   thrown (deposit 1001 (fl (2 / 10)) tenth) = None \<and>
   bal tenth 1001 = Some (Fin (3602879701896397 / 36028797018963968)) \<and>
   real_add (Fin (3602879701896397 / 36028797018963968)) (fl (2 / 10))
     = Fin (10808639105689191 / 36028797018963968) \<and>
   bal (state_after (deposit 1001 (fl (2 / 10)) tenth)) 1001
     = Some (Fin (10808639105689192 / 36028797018963968)) \<and>
   bal (state_after (deposit 1001 (fl (2 / 10)) tenth)) 1001
     \<noteq> Some (real_add (Fin (3602879701896397 / 36028797018963968)) (fl (2 / 10))) \<and>
   js_gt (Fin 1) (Fin 0) \<and>
   thrown (deposit 1001 (Fin 1) large) = None \<and>
   bal large 1001 = Some (Fin 18014398509481984) \<and>
   bal (state_after (deposit 1001 (Fin 1) large)) 1001 = Some (Fin 18014398509481984) \<and>
   bal (state_after (deposit 1001 (Fin 1) large)) 1001
     \<noteq> Some (real_add (Fin 18014398509481984) (Fin 1))"
proof -
  have pos: "\<not> js_le (Fin (3602879701896397 / 18014398509481984)) (Fin 0)" "\<not> js_le (Fin 1) (Fin 0)"
    by simp_all
  have sum: "js_add (Fin (3602879701896397 / 36028797018963968)) (Fin (3602879701896397 / 18014398509481984))
               = Fin (10808639105689192 / 36028797018963968)"
            "js_add (Fin 18014398509481984) (Fin 1) = Fin 18014398509481984"
    by (simp_all add: fl_eval)
  have t: "thrown (deposit 1001 (Fin (3602879701896397 / 18014398509481984)) tenth) = None"
          "bal (state_after (deposit 1001 (Fin (3602879701896397 / 18014398509481984)) tenth)) 1001
             = Some (Fin (10808639105689192 / 36028797018963968))"
    using deposit_returns_I[OF tenth_account pos(1)] sum(1) by (simp_all add: bal_def)
  have l: "thrown (deposit 1001 (Fin 1) large) = None"
          "bal (state_after (deposit 1001 (Fin 1) large)) 1001 = Some (Fin 18014398509481984)"
    using deposit_returns_I[OF large_account pos(2)] sum(2) by (simp_all add: bal_def)
  have b: "bal tenth 1001 = Some (Fin (3602879701896397 / 36028797018963968))"
          "bal large 1001 = Some (Fin 18014398509481984)"
    by (simp_all add: bal_def tenth_account large_account)
  show ?thesis
    using t l b by (simp add: fifth_literal js_gt_def)
qed

text \<open>
  C5, amended. For every amount with \<^verbatim>\<open>amount > 0\<close>, \<^verbatim>\<open>deposit(amount)\<close> returns and sets the
  balance to the Number that \<^verbatim>\<open>balance + amount\<close> evaluates to, and this is an increase by
  exactly the amount whenever balance and amount are finite and their real sum is a
  binary64 value (\<open>exact_sum\<close>). For every \<^verbatim>\<open>amount <= 0\<close> it throws "Amount must be > 0" and
  leaves the whole state, so the balance too, as it was.
\<close>

theorem c5_deposit:
  assumes "accounts s this = Some a"
  shows "(js_gt amount (Fin 0) \<longrightarrow>
            thrown (deposit this amount s) = None \<and>
            bal (state_after (deposit this amount s)) this = Some (js_add (balance a) amount)) \<and>
         (js_gt amount (Fin 0) \<and> exact_sum (balance a) amount \<longrightarrow>
            bal (state_after (deposit this amount s)) this = Some (real_add (balance a) amount)) \<and>
         (js_le amount (Fin 0) \<longrightarrow>
            thrown (deposit this amount s) = Some (Error ''Amount must be > 0'') \<and>
            state_after (deposit this amount s) = s)"
  using assms by (auto simp add: deposit_cases bal_def exact_sum_add dest: js_gt_zero_not_le)

text \<open>
  Bob deposits 50 on the demo page; a deposit of -5 is refused.
\<close>

theorem c5_deposit_witness:
  "js_gt (Fin 50) (Fin 0) \<and> exact_sum (Fin 1200) (Fin 50) \<and> js_le (Fin (- 5)) (Fin 0) \<and>
   thrown (deposit 1002 (Fin 50) demo) = None \<and>
   bal (state_after (deposit 1002 (Fin 50) demo)) 1002 = Some (Fin 1250) \<and>
   thrown (deposit 1002 (Fin (- 5)) demo) = Some (Error ''Amount must be > 0'') \<and>
   state_after (deposit 1002 (Fin (- 5)) demo) = demo"
proof -
  have acc: "accounts demo 1002 =
    Some \<lparr>acc_id = 1002, owner = ''Bob'', acc_type = ''current'', balance = Fin 1200,
          observers = [\<lparr>obs_name = ''Bob'', obs_email = ''bob@demo.bank''\<rparr>], subscribers = []\<rparr>"
    by (simp add: demo_def page_eval)
  have sum: "js_add (Fin 1200) (Fin 50) = Fin 1250"
    by (simp add: fl_eval)
  show ?thesis
    using c5_deposit[OF acc, of "Fin 50"] c5_deposit[OF acc, of "Fin (- 5)"] sum
    by (simp add: js_gt_def is_double_def)
qed

subsection \<open>C6\<close>

text \<open>
  C6. For every account, \<^verbatim>\<open>applyInterest\<close> with the strategy selected for its type sets the
  balance to \<^verbatim>\<open>balance + balance * r\<close>, where \<open>r\<close> is the Number \<^verbatim>\<open>0.04\<close> for the type
  'savings', \<^verbatim>\<open>0.07\<close> for 'fixed' and \<^verbatim>\<open>0.005\<close> for 'current'; and this is the balance the
  handler \<^verbatim>\<open>apply-interest\<close> leaves when it is given the id of the account.
\<close>

theorem c6_apply_interest:
  assumes "accounts s k = Some a"
  shows "(acc_type a = ''savings'' \<longrightarrow>
            bal (state_after (applyInterest k (select_strategy (acc_type a)) s)) k =
              Some (with_interest (balance a) (fl (4 / 100)))) \<and>
         (acc_type a = ''fixed'' \<longrightarrow>
            bal (state_after (applyInterest k (select_strategy (acc_type a)) s)) k =
              Some (with_interest (balance a) (fl (7 / 100)))) \<and>
         (acc_type a = ''current'' \<longrightarrow>
            bal (state_after (applyInterest k (select_strategy (acc_type a)) s)) k =
              Some (with_interest (balance a) (fl (5 / 1000)))) \<and>
         (k \<noteq> 0 \<longrightarrow>
            bal (apply_interest (Some k) s) k =
              bal (state_after (applyInterest k (select_strategy (acc_type a)) s)) k)"
proof -
  have m: "bal (state_after (applyInterest k strat s)) k =
             Some (js_add (balance a) (calculate strat (balance a)))" for strat
    using assms by (simp add: applyInterest_cases bal_def)
  have h: "k \<noteq> 0 \<longrightarrow>
            bal (apply_interest (Some k) s) k =
              bal (state_after (applyInterest k (select_strategy (acc_type a)) s)) k"
    using apply_interest_bal[OF assms] m by simp
  show ?thesis
    using m h by (simp add: select_strategy_def with_interest_def)
qed

text \<open>
  The three accounts of the demo page: 5000 becomes 5200, 1200 becomes 1206 and 25000
  becomes 26750.
\<close>

theorem c6_apply_interest_witness:
  "bal (apply_interest (Some 1001) demo) 1001 = Some (Fin 5200) \<and>
   bal (apply_interest (Some 1002) demo) 1002 = Some (Fin 1206) \<and>
   bal (apply_interest (Some 1003) demo) 1003 = Some (Fin 26750)"
proof -
  have m: "js_mul (Fin 5000) (fl (1 / 25)) = Fin 200"
          "js_mul (Fin 1200) (fl (1 / 200)) = Fin 6"
          "js_mul (Fin 25000) (fl (7 / 100)) = Fin (7696581394432001 / 4398046511104)"
    by (simp_all add: interest_literals) (simp_all add: fl_eval)
  have a: "js_add (Fin 5000) (Fin 200) = Fin 5200"
          "js_add (Fin 1200) (Fin 6) = Fin 1206"
          "js_add (Fin 25000) (Fin (7696581394432001 / 4398046511104)) = Fin 26750"
    by (simp_all add: fl_eval)
  show ?thesis
    using c6_apply_interest[OF demo_accounts(1)] c6_apply_interest[OF demo_accounts(2)]
      c6_apply_interest[OF demo_accounts(3)] m a
    by (simp add: with_interest_def)
qed

subsection \<open>C7\<close>

text \<open>
  C7. \<^verbatim>\<open>executeCommand\<close> appends the command to the command stack if and only if the command's
  \<^verbatim>\<open>execute()\<close> does not throw, and then also logs its label in the command history; when
  \<^verbatim>\<open>execute()\<close> throws, the stack and the command history are as they were.
\<close>

theorem c7_executeCommand:
  "(thrown (execute cmd s) = None \<longleftrightarrow> commandStack (executeCommand cmd s) = commandStack s @ [cmd]) \<and>
   (thrown (execute cmd s) = None \<longrightarrow>
      command_history (executeCommand cmd s) = label cmd # command_history s) \<and>
   (thrown (execute cmd s) \<noteq> None \<longrightarrow>
      commandStack (executeCommand cmd s) = commandStack s \<and>
      command_history (executeCommand cmd s) = command_history s)"
  by (cases "thrown (execute cmd s)") (simp_all add: executeCommand_cases logCommand_def)

text \<open>
  On the demo page, a transfer that executes and one that throws.
\<close>

theorem c7_executeCommand_witness:
  "thrown (execute (TransferCommand 1001 1002 (Fin 300)) demo) = None \<and>
   commandStack (executeCommand (TransferCommand 1001 1002 (Fin 300)) demo) =
     [TransferCommand 1001 1002 (Fin 300)] \<and>
   command_history (executeCommand (TransferCommand 1001 1002 (Fin 300)) demo) = [''Transfer''] \<and>
   thrown (execute (TransferCommand 1001 1002 (Fin 9000)) demo) \<noteq> None \<and>
   commandStack (executeCommand (TransferCommand 1001 1002 (Fin 9000)) demo) = [] \<and>
   command_history (executeCommand (TransferCommand 1001 1002 (Fin 9000)) demo) = []"
proof -
  have big: "thrown (transferTo 1001 1002 (Fin 9000) demo) = Some (Error ''Insufficient funds'')"
    by (simp add: transferTo_cases demo_accounts js_gt_def)
  show ?thesis
    using c7_executeCommand[of "TransferCommand 1001 1002 (Fin 300)" demo]
      c7_executeCommand[of "TransferCommand 1001 1002 (Fin 9000)" demo]
      demo_transfer(1) big demo_stack
    by simp
qed

subsection \<open>C8\<close>

text \<open>
  C8 says that the undo action always targets the most recently executed command that is not
  yet undone. The handler does pop the top of the stack and run that command's \<^verbatim>\<open>undo()\<close>,
  and it leaves the page alone when the stack is empty (\<open>cmd_undo_pops_top\<close>). But the pop
  comes before the \<^verbatim>\<open>try\<close>: a command whose \<^verbatim>\<open>undo()\<close> throws leaves the stack without having
  been undone, and the next undo targets an older command. The theorem evaluates the
  handler on the page \<open>three_deposits\<close>, where all balances are \<open>\<ge> 0\<close>. The first undo takes
  back Zed's deposit of 0.7 and leaves him 0.09999999999999998. The second undo targets his
  deposit of 0.1, whose \<^verbatim>\<open>undo()\<close> throws "Insufficient funds": no balance changes, yet the
  command is gone from the stack. The third undo takes back Bea's older deposit of 50, and
  the stack is empty while Zed's deposit of 0.1 was never undone.
\<close>

theorem c8_failed_undo_drops_command:
  "commandStack three_deposits =
     [DepositCommand 1001 (Fin 50), DepositCommand 1002 (fl (1 / 10)), DepositCommand 1002 (fl (7 / 10))] \<and>
   bal three_deposits 1001 = Some (Fin 150) \<and>
   bal three_deposits 1002 = Some (Fin (7205759403792793 / 9007199254740992)) \<and>
   commandStack (cmd_undo three_deposits) =
     [DepositCommand 1001 (Fin 50), DepositCommand 1002 (fl (1 / 10))] \<and>
   bal (cmd_undo three_deposits) 1001 = Some (Fin 150) \<and>
   bal (cmd_undo three_deposits) 1002 = Some (Fin (900719925474099 / 9007199254740992)) \<and>
   js_gt (fl (1 / 10)) (Fin (900719925474099 / 9007199254740992)) \<and>
   commandStack (cmd_undo (cmd_undo three_deposits)) = [DepositCommand 1001 (Fin 50)] \<and>
   hd (feed (cmd_undo (cmd_undo three_deposits))) =
     (Title ''Undo Error'', ErrorMessage (Error ''Insufficient funds'')) \<and>
   bal (cmd_undo (cmd_undo three_deposits)) 1001 = Some (Fin 150) \<and>
   bal (cmd_undo (cmd_undo three_deposits)) 1002 = Some (Fin (900719925474099 / 9007199254740992)) \<and>
   commandStack (cmd_undo (cmd_undo (cmd_undo three_deposits))) = [] \<and>
   bal (cmd_undo (cmd_undo (cmd_undo three_deposits))) 1001 = Some (Fin 100) \<and>
   bal (cmd_undo (cmd_undo (cmd_undo three_deposits))) 1002 =
     Some (Fin (900719925474099 / 9007199254740992))"
proof -
  have lit: "fl (1 / 10) = Fin (3602879701896397 / 36028797018963968)"
            "fl (7 / 10) = Fin (3152519739159347 / 4503599627370496)"
    by (simp_all add: fl_eval)
  show ?thesis
    by (simp add: bal_def lit js_gt_def three_deposits_state first_undo_state second_undo_state
        third_undo_state)
qed

subsection \<open>C9\<close>

text \<open>
  C9. \<^verbatim>\<open>transferTo\<close> throws "Cannot transfer to same account" whenever the source and the
  target have the same id; and whenever \<^verbatim>\<open>transferTo\<close> throws, for whatever reason, the whole
  state is as it was, so the balances of source and target are unchanged.
\<close>

theorem c9_transferTo_throws:
  "(accounts s this = Some a \<and> accounts s target = Some b \<and> acc_id a = acc_id b \<longrightarrow>
      thrown (transferTo this target amount s) = Some (Error ''Cannot transfer to same account'')) \<and>
   (thrown (transferTo this target amount s) \<noteq> None \<longrightarrow>
      state_after (transferTo this target amount s) = s \<and>
      bal (state_after (transferTo this target amount s)) this = bal s this \<and>
      bal (state_after (transferTo this target amount s)) target = bal s target)"
  by (auto simp add: transferTo_thrown_state) (simp add: transferTo_cases)

text \<open>
  On the demo page: Alice to herself, and 9000 from Alice to Bob.
\<close>

theorem c9_transferTo_throws_witness:
  "thrown (transferTo 1001 1001 (Fin 300) demo) = Some (Error ''Cannot transfer to same account'') \<and>
   thrown (transferTo 1001 1002 (Fin 9000) demo) \<noteq> None \<and>
   state_after (transferTo 1001 1002 (Fin 9000) demo) = demo \<and>
   bal (state_after (transferTo 1001 1002 (Fin 9000) demo)) 1001 = Some (Fin 5000) \<and>
   bal (state_after (transferTo 1001 1002 (Fin 9000) demo)) 1002 = Some (Fin 1200)"
proof -
  have big: "thrown (transferTo 1001 1002 (Fin 9000) demo) = Some (Error ''Insufficient funds'')"
    by (simp add: transferTo_cases demo_accounts js_gt_def)
  show ?thesis
    using c9_transferTo_throws[of demo 1001 _ 1001 _ "Fin 300"]
      c9_transferTo_throws[of demo 1001 _ 1002 _ "Fin 9000"] big
    by (simp add: demo_accounts bal_def)
qed

subsection \<open>C10\<close>

text \<open>
  C10 as stated fails. The page \<open>small_change\<close> has two accounts, opened with 0.3 and 0.7.
  The transfer of 0.1 from the first to the second returns and leaves
  0.19999999999999998 and 0.7999999999999999: the sum of the two balances has changed,
  both as a real number and as the program computes it (\<^verbatim>\<open>0.3 + 0.7\<close> is \<^verbatim>\<open>1\<close>, the sum of the new
  balances is \<^verbatim>\<open>0.9999999999999999\<close>).
\<close>

theorem c10_sum_not_conserved:
  "thrown (transferTo 1001 1002 (fl (1 / 10)) small_change) = None \<and>
   real_sum (bal small_change 1001) (bal small_change 1002) = Some (18014398509481983 / 18014398509481984) \<and>
   real_sum (bal (state_after (transferTo 1001 1002 (fl (1 / 10)) small_change)) 1001)
            (bal (state_after (transferTo 1001 1002 (fl (1 / 10)) small_change)) 1002)
     = Some (36028797018963965 / 36028797018963968) \<and>
   js_sum (bal small_change 1001) (bal small_change 1002) = Some (Fin 1) \<and>
   js_sum (bal (state_after (transferTo 1001 1002 (fl (1 / 10)) small_change)) 1001)
          (bal (state_after (transferTo 1001 1002 (fl (1 / 10)) small_change)) 1002)
     = Some (Fin (9007199254740991 / 9007199254740992)) \<and>
   real_sum (bal (state_after (transferTo 1001 1002 (fl (1 / 10)) small_change)) 1001)
            (bal (state_after (transferTo 1001 1002 (fl (1 / 10)) small_change)) 1002)
     \<noteq> real_sum (bal small_change 1001) (bal small_change 1002) \<and>
   js_sum (bal (state_after (transferTo 1001 1002 (fl (1 / 10)) small_change)) 1001)
          (bal (state_after (transferTo 1001 1002 (fl (1 / 10)) small_change)) 1002)
     \<noteq> js_sum (bal small_change 1001) (bal small_change 1002)"
proof -
  have b: "bal small_change 1001 = Some (Fin (5404319552844595 / 18014398509481984))"
          "bal small_change 1002 = Some (Fin (3152519739159347 / 4503599627370496))"
    by (simp_all add: bal_def small_change_accounts)
  have s1: "fl (18014398509481983 / 18014398509481984) = Fin 1"
    by (simp add: fl_eval)
  have s2: "fl (36028797018963965 / 36028797018963968) = Fin (9007199254740991 / 9007199254740992)"
    by (simp add: fl_eval)
  show ?thesis
    by (simp add: small_change_transfer b s1 s2)
qed

text \<open>
  C10, amended. Every \<^verbatim>\<open>transferTo\<close> that returns leaves every other account unchanged, and
  leaves the sum of the two balances unchanged whenever its two balance updates are exact,
  that is, need no rounding.
\<close>

theorem c10_transfer_conserves:
  assumes "thrown (transferTo this target amount s) = None"
  shows "(\<forall>r. r \<noteq> this \<and> r \<noteq> target \<longrightarrow>
            accounts (state_after (transferTo this target amount s)) r = accounts s r) \<and>
         (exact (TransferCommand this target amount) s \<longrightarrow>
            real_sum (bal s this) (bal s target) \<noteq> None \<and>
            real_sum (bal (state_after (transferTo this target amount s)) this)
                     (bal (state_after (transferTo this target amount s)) target)
              = real_sum (bal s this) (bal s target))"
proof -
  from transferTo_returns_D[OF assms] obtain a b where
    a: "accounts s this = Some a" and b: "accounts s target = Some b" and ne: "this \<noteq> target"
    and acc: "accounts (state_after (transferTo this target amount s)) =
             (accounts s)(this \<mapsto> a\<lparr>balance := js_sub (balance a) amount\<rparr>,
                          target \<mapsto> b\<lparr>balance := js_add (balance b) amount\<rparr>)"
    by blast
  have frame: "\<forall>r. r \<noteq> this \<and> r \<noteq> target \<longrightarrow>
            accounts (state_after (transferTo this target amount s)) r = accounts s r"
    by (simp add: acc)
  have sum: "real_sum (bal s this) (bal s target) \<noteq> None \<and>
            real_sum (bal (state_after (transferTo this target amount s)) this)
                     (bal (state_after (transferTo this target amount s)) target)
              = real_sum (bal s this) (bal s target)"
    if ex: "exact (TransferCommand this target amount) s"
  proof -
    from ex a b have ed: "exact_diff (balance a) amount" and es: "exact_sum (balance b) amount"
      by simp_all
    from ed obtain x z where x: "balance a = Fin x" and z: "amount = Fin z"
      by (cases "balance a"; cases amount) simp_all
    from es z obtain y where y: "balance b = Fin y"
      by (cases "balance b") simp_all
    have "js_sub (balance a) amount = Fin (x - z)"
      using exact_diff_sub[OF ed] x z by simp
    moreover have "js_add (balance b) amount = Fin (y + z)"
      using exact_sum_add[OF es] y z by simp
    ultimately show ?thesis
      using a b ne x y by (simp add: bal_def acc)
  qed
  from frame sum show ?thesis by blast
qed

text \<open>
  On the demo page: 300 from Alice to Bob; CorpX is untouched and the sum stays 6200.
\<close>

theorem c10_transfer_conserves_witness:
  "thrown (transferTo 1001 1002 (Fin 300) demo) = None \<and>
   exact (TransferCommand 1001 1002 (Fin 300)) demo \<and>
   accounts (state_after (transferTo 1001 1002 (Fin 300) demo)) 1003 = accounts demo 1003 \<and>
   real_sum (bal demo 1001) (bal demo 1002) = Some 6200 \<and>
   real_sum (bal (state_after (transferTo 1001 1002 (Fin 300) demo)) 1001)
            (bal (state_after (transferTo 1001 1002 (Fin 300) demo)) 1002) = Some 6200"
proof -
  have ex: "exact (TransferCommand 1001 1002 (Fin 300)) demo"
    by (simp add: demo_accounts is_double_def fl_eval)
  have b: "real_sum (bal demo 1001) (bal demo 1002) = Some 6200"
    by (simp add: bal_def demo_accounts)
  show ?thesis
    using c10_transfer_conserves[OF demo_transfer(1)] ex b demo_transfer(1) by simp
qed

end
